theory Spec2Isabelle
  imports Main "HOL-Library.AList"
begin

section \<open>JavaScript values used by the handlers\<close>

text \<open>
  A JavaScript value that is either a string or \<open>undefined\<close>/\<open>null\<close> is a
  \<open>string option\<close>; a test \<open>if (x)\<close> on it succeeds for a non-empty string only.
  A number that may be missing is an \<open>int option\<close>; the test fails for \<open>0\<close> too.
\<close>

definition truthy_str :: "string option \<Rightarrow> bool" where
  "truthy_str x = (case x of None \<Rightarrow> False | Some s \<Rightarrow> s \<noteq> [])"

definition truthy_num :: "int option \<Rightarrow> bool" where
  "truthy_num x = (case x of None \<Rightarrow> False | Some n \<Rightarrow> n \<noteq> 0)"

text \<open>\<open>x || d\<close> on such values.\<close>

definition or_str :: "string option \<Rightarrow> string \<Rightarrow> string" where
  "or_str x d = (if truthy_str x then the x else d)"

definition or_nat :: "nat option \<Rightarrow> nat \<Rightarrow> nat" where
  "or_nat x d = (case x of None \<Rightarrow> d | Some n \<Rightarrow> if n = 0 then d else n)"


section \<open>Session manager (dist/session/manager.js)\<close>

text \<open>
  One mapping object of the session map. \<open>messageCount\<close> is not set when the mapping
  is created; the request handler writes it on the resume path.
\<close>

record session =
  conversationId :: string
  claudeSessionId :: string
  createdAt :: int
  lastUsedAt :: int
  model :: string
  messageCount :: "nat option"

text \<open>
  The \<open>Map\<close> of the manager is an association list in insertion order (the order a
  JavaScript \<open>Map\<close> iterates in): \<open>Map.get\<close> is \<open>map_of\<close>, \<open>Map.set\<close> is
  \<open>AList.update\<close> (in place for a key that is present, at the end for a new one),
  \<open>Map.delete\<close> is \<open>AList.delete\<close>. Assigning to a field of a stored mapping object
  is an update of the entry. \<open>written\<close> lists the documents that \<open>save\<close> has handed to
  \<open>fs.writeFile\<close>, oldest first: the effect of the fire-and-forget saves. \<open>loading\<close>
  counts the calls of \<open>load\<close> that have passed the test of \<open>loaded\<close> and are
  suspended at \<open>await fs.readFile\<close>.
\<close>

record manager =
  sessions :: "(string \<times> session) list"
  loaded :: bool
  written :: "(string \<times> session) list list"
  loading :: nat

definition SESSION_TTL_MS :: int where
  "SESSION_TTL_MS = 24 * 60 * 60 * 1000"

definition new_manager :: manager where
  "new_manager = \<lparr>sessions = [], loaded = False, written = [], loading = 0\<rparr>"

text \<open>
  \<open>load\<close> is asynchronous and the module starts it at import without waiting for it,
  so other operations can run between its two parts. \<open>load_call\<close> is the call up to
  \<open>await fs.readFile\<close>: it returns at once when \<open>loaded\<close> is set. \<open>load_return\<close> is
  the rest of a suspended call, once the read has returned: \<open>file\<close> is the parsed
  session file, or \<open>None\<close> when reading or parsing it throws; either way the whole map
  is replaced. \<open>load\<close> is a call with nothing running in between.
\<close>

definition load_call :: "manager \<Rightarrow> manager" where
  "load_call m = (if loaded m then m else m\<lparr>loading := loading m + 1\<rparr>)"

definition load_return :: "(string \<times> session) list option \<Rightarrow> manager \<Rightarrow> manager" where
  "load_return file m =
     (if loading m = 0 then m
      else
        (let m1 = m\<lparr>loading := loading m - 1\<rparr>
         in case file of
              Some parsed \<Rightarrow> m1\<lparr>sessions := parsed, loaded := True\<rparr>
            | None \<Rightarrow> m1\<lparr>sessions := [], loaded := True\<rparr>))"

definition load :: "(string \<times> session) list option \<Rightarrow> manager \<Rightarrow> manager" where
  "load file m = (if loaded m then m else load_return file (load_call m))"


definition save :: "manager \<Rightarrow> manager" where
  "save m = m\<lparr>written := written m @ [sessions m]\<rparr>"

text \<open>
  \<open>getOrCreate\<close>: \<open>uuid\<close> is what \<open>uuidv4()\<close> returns if it is called, \<open>t1\<close> and
  \<open>t2\<close> are the first and the second reading of \<open>Date.now()\<close> the call takes (the
  existing-session path takes one reading, the create path two). The model argument
  defaults to \<open>"sonnet"\<close> when the caller passes \<open>undefined\<close>.
\<close>

definition getOrCreate ::
  "string \<Rightarrow> int \<Rightarrow> int \<Rightarrow> string \<Rightarrow> string option \<Rightarrow> manager \<Rightarrow> string \<times> manager" where
  "getOrCreate uuid t1 t2 cid model_arg m =
     (let mdl = (case model_arg of None \<Rightarrow> ''sonnet'' | Some x \<Rightarrow> x) in
      case map_of (sessions m) cid of
        Some existing \<Rightarrow>
          (claudeSessionId existing,
           m\<lparr>sessions :=
               AList.update cid (existing\<lparr>lastUsedAt := t1, model := mdl\<rparr>) (sessions m)\<rparr>)
      | None \<Rightarrow>
          (let mapping = \<lparr>conversationId = cid, claudeSessionId = uuid, createdAt = t1,
                          lastUsedAt = t2, model = mdl, messageCount = None\<rparr>
           in (uuid, save (m\<lparr>sessions := AList.update cid mapping (sessions m)\<rparr>))))"

definition get :: "string \<Rightarrow> manager \<Rightarrow> session option" where
  "get cid m = map_of (sessions m) cid"

definition delete :: "string \<Rightarrow> manager \<Rightarrow> bool \<times> manager" where
  "delete cid m =
     (let deleted = (map_of (sessions m) cid \<noteq> None);
          m1 = m\<lparr>sessions := AList.delete cid (sessions m)\<rparr>
      in (deleted, if deleted then save m1 else m1))"

text \<open>
  \<open>cleanup\<close>: the \<open>for ... of\<close> loop over the entries, deleting each expired key
  and counting it; \<open>now\<close> is the reading of \<open>Date.now()\<close>.
\<close>

fun cleanup_loop ::
  "int \<Rightarrow> (string \<times> session) list \<Rightarrow> manager \<Rightarrow> nat \<Rightarrow> nat \<times> manager" where
  "cleanup_loop cutoff [] m removed = (removed, m)"
| "cleanup_loop cutoff ((key, s) # rest) m removed =
     (if lastUsedAt s < cutoff
      then cleanup_loop cutoff rest (m\<lparr>sessions := AList.delete key (sessions m)\<rparr>) (removed + 1)
      else cleanup_loop cutoff rest m removed)"

definition cleanup :: "int \<Rightarrow> manager \<Rightarrow> nat \<times> manager" where
  "cleanup now m =
     (let cutoff = now - SESSION_TTL_MS;
          (removed, m1) = cleanup_loop cutoff (sessions m) m 0
      in (removed, if removed > 0 then save m1 else m1))"


section \<open>Session handling of the request handler (handleChatCompletions)\<close>

text \<open>
  The session block of \<open>handleChatCompletions\<close>: \<open>conversationId\<close> is \<open>body.user\<close>,
  \<open>mdl\<close> is the value of \<open>extractModel(body.model)\<close> (the function is not part of the
  sources at hand, so its result is an argument). The result is \<open>hasExistingSession\<close>,
  \<open>claudeSessionId\<close> and the manager.
\<close>

definition session_block ::
  "string \<Rightarrow> int \<Rightarrow> int \<Rightarrow> string option \<Rightarrow> string option \<Rightarrow> manager
     \<Rightarrow> (bool \<times> string option) \<times> manager" where
  "session_block uuid t1 t2 conversation mdl m =
     (if truthy_str conversation then
        (let cid = the conversation in
         case get cid m of
           Some existing \<Rightarrow>
             (let existing1 = existing\<lparr>lastUsedAt := t1,
                    messageCount := Some (or_nat (messageCount existing) 0 + 1)\<rparr>
              in ((True, Some (claudeSessionId existing)),
                  save (m\<lparr>sessions := AList.update cid existing1 (sessions m)\<rparr>)))
         | None \<Rightarrow>
             (let (sid, m1) = getOrCreate uuid t1 t2 cid mdl m
              in ((False, Some sid), m1)))
      else ((False, None), m))"

text \<open>The listener for \<open>resume_failed\<close> that the handler registers.\<close>

definition on_resume_failed :: "string option \<Rightarrow> manager \<Rightarrow> manager" where
  "on_resume_failed conversation m =
     (if truthy_str conversation then snd (delete (the conversation) m) else m)"







section \<open>Progress reporter (class ProgressReporter of the route handlers)\<close>

text \<open>
  Strings with characters outside ASCII are given by their UTF-8 bytes; equality and
  concatenation of JavaScript strings agree with those of the byte lists.

  \<open>TOOL_LABELS[toolName] || toolName\<close> reads a property of an object literal, so a
  tool name that is not a key of the table but names a member of \<open>Object.prototype\<close>
  yields that member (a function or, for \<open>__proto__\<close>, the prototype object), which is
  truthy and is compared by identity. A label is therefore a string or such a member.
\<close>

datatype label = Text string | Inherited string

definition TOOL_LABELS :: "(string \<times> string) list" where
  "TOOL_LABELS =
    [(''Bash'', [CHR 0xE5, CHR 0x9F, CHR 0xB7, CHR 0xE8, CHR 0xA1, CHR 0x8C, CHR 0xE5, CHR 0x91, CHR 0xBD, CHR 0xE4, CHR 0xBB, CHR 0xA4]),
     (''Read'', [CHR 0xE8, CHR 0xAE, CHR 0x80, CHR 0xE5, CHR 0x8F, CHR 0x96, CHR 0xE6, CHR 0xAA, CHR 0x94, CHR 0xE6, CHR 0xA1, CHR 0x88]),
     (''Write'', [CHR 0xE5, CHR 0xAF, CHR 0xAB, CHR 0xE5, CHR 0x85, CHR 0xA5, CHR 0xE6, CHR 0xAA, CHR 0x94, CHR 0xE6, CHR 0xA1, CHR 0x88]),
     (''Edit'', [CHR 0xE7, CHR 0xB7, CHR 0xA8, CHR 0xE8, CHR 0xBC, CHR 0xAF, CHR 0xE6, CHR 0xAA, CHR 0x94, CHR 0xE6, CHR 0xA1, CHR 0x88]),
     (''Grep'', [CHR 0xE6, CHR 0x90, CHR 0x9C, CHR 0xE5, CHR 0xB0, CHR 0x8B, CHR 0xE5, CHR 0x85, CHR 0xA7, CHR 0xE5, CHR 0xAE, CHR 0xB9]),
     (''Glob'', [CHR 0xE6, CHR 0x90, CHR 0x9C, CHR 0xE5, CHR 0xB0, CHR 0x8B, CHR 0xE6, CHR 0xAA, CHR 0x94, CHR 0xE6, CHR 0xA1, CHR 0x88]),
     (''WebSearch'', [CHR 0xE6, CHR 0x90, CHR 0x9C, CHR 0xE5, CHR 0xB0, CHR 0x8B, CHR 0xE7, CHR 0xB6, CHR 0xB2, CHR 0xE9, CHR 0xA0, CHR 0x81]),
     (''WebFetch'', [CHR 0xE8, CHR 0xAE, CHR 0x80, CHR 0xE5, CHR 0x8F, CHR 0x96, CHR 0xE7, CHR 0xB6, CHR 0xB2, CHR 0xE9, CHR 0xA0, CHR 0x81]),
     (''TodoRead'', [CHR 0xE8, CHR 0xAE, CHR 0x80, CHR 0xE5, CHR 0x8F, CHR 0x96, CHR 0xE5, CHR 0xBE, CHR 0x85, CHR 0xE8, CHR 0xBE, CHR 0xA6]),
     (''TodoWrite'', [CHR 0xE6, CHR 0x9B, CHR 0xB4, CHR 0xE6, CHR 0x96, CHR 0xB0, CHR 0xE5, CHR 0xBE, CHR 0x85, CHR 0xE8, CHR 0xBE, CHR 0xA6])]"

definition Object_prototype_members :: "string list" where
  "Object_prototype_members =
    [''constructor'', ''hasOwnProperty'', ''isPrototypeOf'', ''propertyIsEnumerable'',
     ''toLocaleString'', ''toString'', ''valueOf'', ''__proto__'',
     ''__defineGetter__'', ''__defineSetter__'', ''__lookupGetter__'', ''__lookupSetter__'']"

definition tool_label :: "string \<Rightarrow> label" where
  "tool_label toolName =
     (case map_of TOOL_LABELS toolName of
        Some l \<Rightarrow> Text l
      | None \<Rightarrow> if toolName \<in> set Object_prototype_members then Inherited toolName
                else Text toolName)"

text \<open>What a template literal makes of a label.\<close>

definition label_text :: "label \<Rightarrow> string" where
  "label_text l =
     (case l of
        Text s \<Rightarrow> s
      | Inherited k \<Rightarrow>
          if k = ''__proto__'' then ''[object Object]''
          else ''function '' @ (if k = ''constructor'' then ''Object'' else k)
               @ ''() { [native code] }'')"

text \<open>
  The calls of \<open>telegramApi\<close>, in the order they are made. The first argument of a
  send or an edit is not part of the payload: it is the reading of \<open>Date.now()\<close> that
  \<open>_flush\<close> stored in \<open>lastUpdateAt\<close> just before the call, kept to tell when the
  flush happened.
\<close>

datatype api_call =
    SendMessage int "string option" string
  | EditMessageText int "string option" "int option" string
  | DeleteMessage "string option" "int option"

text \<open>
  The fields of the class. \<open>throttleTimer\<close> holds the time at which the armed timeout
  is due. \<open>awaiting\<close> counts the \<open>_flush\<close> calls suspended at
  \<open>await telegramApi("sendMessage", ...)\<close>, whose continuation will store the message id.
\<close>

record reporter =
  chatId :: "string option"
  messageId :: "int option"
  toolHistory :: "label list"
  lastUpdateAt :: int
  pendingLabel :: "label option"
  throttleTimer :: "int option"
  isDeleted :: bool
  calls :: "api_call list"
  awaiting :: nat

definition MIN_UPDATE_INTERVAL :: int where
  "MIN_UPDATE_INTERVAL = 3000"

definition new_reporter :: "string option \<Rightarrow> reporter" where
  "new_reporter chat =
     \<lparr>chatId = chat, messageId = None, toolHistory = [], lastUpdateAt = 0,
      pendingLabel = None, throttleTimer = None, isDeleted = False, calls = [], awaiting = 0\<rparr>"

definition hourglass :: string where
  "hourglass = [CHR 0xE2, CHR 0x8F, CHR 0xB3, CHR 0x20]"

definition processing :: string where
  "processing = [CHR 0xE2, CHR 0x8F, CHR 0xB3, CHR 0x20, CHR 0xE8, CHR 0x99, CHR 0x95,
     CHR 0xE7, CHR 0x90, CHR 0x86, CHR 0xE4, CHR 0xB8, CHR 0xAD, CHR 0x2E, CHR 0x2E, CHR 0x2E]"

fun join :: "string \<Rightarrow> string list \<Rightarrow> string" where
  "join sep [] = []"
| "join sep [x] = x"
| "join sep (x # y # zs) = x @ sep @ join sep (y # zs)"

definition buildText :: "reporter \<Rightarrow> string" where
  "buildText r =
     (if length (toolHistory r) = 0 then processing
      else join [CHR 0x0A]
             (map (\<lambda>(i, l). if i = 0 then hourglass @ label_text l @ ''...''
                             else ''     '' @ label_text l @ ''...'')
                  (enumerate 0 (toolHistory r))))"

text \<open>
  \<open>_flush\<close> up to its \<open>await\<close>; \<open>now\<close> is its reading of \<open>Date.now()\<close>.
\<close>

definition flush :: "int \<Rightarrow> reporter \<Rightarrow> reporter" where
  "flush now r =
     (if isDeleted r then r
      else
        (let r1 = r\<lparr>lastUpdateAt := now, pendingLabel := None\<rparr>;
             text = buildText r1
         in if \<not> truthy_num (messageId r1)
            then r1\<lparr>calls := calls r1 @ [SendMessage now (chatId r1) text],
                    awaiting := awaiting r1 + 1\<rparr>
            else r1\<lparr>calls := calls r1 @ [EditMessageText now (chatId r1) (messageId r1) text]\<rparr>))"

text \<open>
  The continuation of a suspended \<open>_flush\<close> after \<open>sendMessage\<close>: \<open>reply\<close> is the
  message id of an \<open>ok\<close> result, \<open>None\<close> for \<open>null\<close> or a result that is not \<open>ok\<close>.
\<close>

definition send_returned :: "int option \<Rightarrow> reporter \<Rightarrow> reporter" where
  "send_returned reply r =
     (if awaiting r = 0 then r
      else
        (let r1 = r\<lparr>awaiting := awaiting r - 1\<rparr>
         in case reply of None \<Rightarrow> r1 | Some mid \<Rightarrow> r1\<lparr>messageId := Some mid\<rparr>))"

text \<open>
  \<open>report\<close> up to its \<open>await\<close>: \<open>now\<close> is its own reading of \<open>Date.now()\<close>,
  \<open>now2\<close> the reading of the \<open>_flush\<close> it may call. \<open>slice(-6)\<close> keeps the last six
  entries. The timeout is armed for \<open>MIN_UPDATE_INTERVAL - elapsed\<close> after \<open>now\<close>.
\<close>

definition report :: "string \<Rightarrow> int \<Rightarrow> int \<Rightarrow> reporter \<Rightarrow> reporter" where
  "report toolName now now2 r =
     (if isDeleted r then r
      else if \<not> truthy_str (chatId r) then r
      else
        (let label = tool_label toolName in
         if length (toolHistory r) > 0 \<and> last (toolHistory r) = label then r
         else
           (let h = toolHistory r @ [label];
                r1 = r\<lparr>toolHistory := (if length h > 6 then drop (length h - 6) h else h)\<rparr>;
                elapsed = now - lastUpdateAt r1
            in if elapsed \<ge> MIN_UPDATE_INTERVAL then flush now2 r1
               else
                 (let r2 = r1\<lparr>pendingLabel := Some label\<rparr>
                  in if throttleTimer r2 = None
                     then r2\<lparr>throttleTimer := Some (now + (MIN_UPDATE_INTERVAL - elapsed))\<rparr>
                     else r2))))"

text \<open>The callback of the throttle timeout; \<open>now\<close> is the reading of its \<open>_flush\<close>.\<close>

definition timer_callback :: "int \<Rightarrow> reporter \<Rightarrow> reporter" where
  "timer_callback now r =
     (let r1 = r\<lparr>throttleTimer := None\<rparr>
      in if \<not> isDeleted r1 then flush now r1 else r1)"

text \<open>
  The timers phase of the event loop at time \<open>now\<close>: the callback of an armed timeout
  runs once its due time has been reached, never before it.
\<close>

definition run_timers :: "int \<Rightarrow> reporter \<Rightarrow> reporter" where
  "run_timers now r =
     (case throttleTimer r of
        None \<Rightarrow> r
      | Some due \<Rightarrow> if due \<le> now then timer_callback now r else r)"

text \<open>\<open>cleanup\<close> of the reporter, up to its \<open>await\<close>.\<close>

definition cleanup_reporter :: "reporter \<Rightarrow> reporter" where
  "cleanup_reporter r =
     (let r1 = r\<lparr>isDeleted := True\<rparr>;
          r2 = (if throttleTimer r1 \<noteq> None then r1\<lparr>throttleTimer := None\<rparr> else r1)
      in if truthy_num (messageId r2) \<and> truthy_str (chatId r2)
         then r2\<lparr>calls := calls r2 @ [DeleteMessage (chatId r2) (messageId r2)]\<rparr>
         else r2)"

text \<open>What can happen to one reporter, and a run of such events.\<close>

datatype reporter_event =
    Report string int int
  | Timers int
  | SendReturned "int option"
  | CleanupReporter

fun reporter_step :: "reporter_event \<Rightarrow> reporter \<Rightarrow> reporter" where
  "reporter_step (Report toolName now now2) r = report toolName now now2 r"
| "reporter_step (Timers now) r = run_timers now r"
| "reporter_step (SendReturned reply) r = send_returned reply r"
| "reporter_step CleanupReporter r = cleanup_reporter r"

fun reporter_run :: "reporter_event list \<Rightarrow> reporter \<Rightarrow> reporter" where
  "reporter_run [] r = r"
| "reporter_run (e # es) r = reporter_run es (reporter_step e r)"

text \<open>The times of the flushes, oldest first, and the number of deletes.\<close>

fun flush_times :: "api_call list \<Rightarrow> int list" where
  "flush_times [] = []"
| "flush_times (SendMessage t c x # cs) = t # flush_times cs"
| "flush_times (EditMessageText t c m x # cs) = t # flush_times cs"
| "flush_times (DeleteMessage c m # cs) = flush_times cs"

fun deletes :: "api_call list \<Rightarrow> nat" where
  "deletes [] = 0"
| "deletes (DeleteMessage c m # cs) = Suc (deletes cs)"
| "deletes (_ # cs) = deletes cs"

text \<open>
  Time as the events of a run see it: readings never go backwards. \<open>well_timed t es\<close>
  holds when every reading in \<open>es\<close> is at least \<open>t\<close> and at least the readings before it.
\<close>

fun well_timed :: "int \<Rightarrow> reporter_event list \<Rightarrow> bool" where
  "well_timed t [] = True"
| "well_timed t (Report n now now2 # es) = (t \<le> now \<and> now \<le> now2 \<and> well_timed now2 es)"
| "well_timed t (Timers now # es) = (t \<le> now \<and> well_timed now es)"
| "well_timed t (_ # es) = well_timed t es"

text \<open>
  A run is punctual when no armed timeout is overdue at the moment a report is
  processed: the timers phase has run the callback before any report whose reading of
  the clock has reached the due time.
\<close>

fun punctual :: "reporter_event list \<Rightarrow> reporter \<Rightarrow> bool" where
  "punctual [] r = True"
| "punctual (Report n now now2 # es) r =
     ((case throttleTimer r of None \<Rightarrow> True | Some due \<Rightarrow> now < due)
      \<and> punctual es (report n now now2 r))"
| "punctual (e # es) r = punctual es (reporter_step e r)"

text \<open>Neighbouring entries of a list of times are at least \<open>d\<close> apart.\<close>

fun spaced :: "int \<Rightarrow> int list \<Rightarrow> bool" where
  "spaced d [] = True"
| "spaced d [t] = True"
| "spaced d (t # u # ts) = (t + d \<le> u \<and> spaced d (u # ts))"


section \<open>Adapter (dist/adapter/cli-to-openai.js)\<close>

text \<open>\<open>String.prototype.includes\<close>.\<close>

fun str_includes :: "string \<Rightarrow> string \<Rightarrow> bool" where
  "str_includes [] sub = (sub = [])"
| "str_includes (c # cs) sub = (take (length sub) (c # cs) = sub \<or> str_includes cs sub)"

definition normalizeModelName :: "string option \<Rightarrow> string" where
  "normalizeModelName mdl =
     (if \<not> truthy_str mdl then ''claude-sonnet-4''
      else if str_includes (the mdl) ''opus'' then ''claude-opus-4''
      else if str_includes (the mdl) ''sonnet'' then ''claude-sonnet-4''
      else if str_includes (the mdl) ''haiku'' then ''claude-haiku-4''
      else the mdl)"

text \<open>
  A streaming chunk. Its \<open>choices\<close> array always has the one entry with index 0, given
  here by the fields \<open>choice_index\<close>, \<open>delta_role\<close>, \<open>delta_content\<close> and
  \<open>finish_reason\<close>; a field that is \<open>undefined\<close> or \<open>null\<close> is \<open>None\<close>.
\<close>

record chunk =
  chunk_id :: string
  chunk_object :: string
  chunk_created :: int
  chunk_model :: "string option"
  choice_index :: nat
  delta_role :: "string option"
  delta_content :: "string option"
  finish_reason :: "string option"

text \<open>\<open>createDoneChunk\<close>; \<open>now\<close> is its reading of \<open>Date.now()\<close>.\<close>

definition createDoneChunk :: "string \<Rightarrow> string option \<Rightarrow> int \<Rightarrow> chunk" where
  "createDoneChunk rid mdl now =
     \<lparr>chunk_id = ''chatcmpl-'' @ rid, chunk_object = ''chat.completion.chunk'',
      chunk_created = now div 1000, chunk_model = Some (normalizeModelName mdl),
      choice_index = 0, delta_role = None, delta_content = None,
      finish_reason = Some ''stop''\<rparr>"

text \<open>
  The terminal \<open>result\<close> message of the CLI, with the fields the adapter reads:
  \<open>result\<close>, the keys of \<open>modelUsage\<close> in the order of \<open>Object.keys\<close>, and the two
  token counts of \<open>usage\<close>.
\<close>

record cli_result =
  result_text :: "string option"
  modelUsage :: "string list option"
  result_usage :: "(nat option \<times> nat option) option"

record completion =
  completion_id :: string
  completion_object :: string
  completion_created :: int
  completion_model :: string
  message_role :: string
  message_content :: "string option"
  completion_finish_reason :: string
  prompt_tokens :: nat
  completion_tokens :: nat
  total_tokens :: nat

definition input_tokens :: "cli_result \<Rightarrow> nat" where
  "input_tokens r = (case result_usage r of None \<Rightarrow> 0 | Some (i, out) \<Rightarrow> or_nat i 0)"

definition output_tokens :: "cli_result \<Rightarrow> nat" where
  "output_tokens r = (case result_usage r of None \<Rightarrow> 0 | Some (i, out) \<Rightarrow> or_nat out 0)"

definition cliResultToOpenai :: "cli_result \<Rightarrow> string \<Rightarrow> int \<Rightarrow> completion" where
  "cliResultToOpenai r rid now =
     (let modelName = (case modelUsage r of
                         None \<Rightarrow> Some ''claude-sonnet-4''
                       | Some ks \<Rightarrow> (case ks of [] \<Rightarrow> None | k # _ \<Rightarrow> Some k))
      in \<lparr>completion_id = ''chatcmpl-'' @ rid, completion_object = ''chat.completion'',
          completion_created = now div 1000,
          completion_model = normalizeModelName modelName,
          message_role = ''assistant'', message_content = result_text r,
          completion_finish_reason = ''stop'',
          prompt_tokens = input_tokens r, completion_tokens = output_tokens r,
          total_tokens = input_tokens r + output_tokens r\<rparr>)"


section \<open>Events reaching the response handlers\<close>

text \<open>
  The messages of the CLI as the \<open>message\<close> listener looks at them: the \<open>type\<close>, the
  type of the nested \<open>event\<close> if there is one, and for \<open>content_block_start\<close> the
  \<open>content_block\<close>, if any, with its name when its type is \<open>tool_use\<close>.
\<close>

datatype content_block = ToolUse "string option" | OtherBlock

datatype stream_event = MessageStart | ContentBlockStart "content_block option" | OtherStreamEvent

datatype cli_message = StreamEventMsg "stream_event option" | OtherMessage

text \<open>
  What a handler can be called for: the events of the subprocess (\<open>message\<close>,
  \<open>content_delta\<close> with \<open>event.delta?.text\<close>, \<open>assistant\<close> with the model name,
  \<open>result\<close>, \<open>error\<close> with its message, \<open>close\<close> with the exit code or \<open>null\<close>,
  \<open>resume_failed\<close>), the rejection of \<open>subprocess.start\<close>, the \<open>close\<close> of the
  response, the timers phase of the event loop, and the return of a pending
  \<open>sendMessage\<close> of the progress reporter.
\<close>

datatype event =
    Message cli_message
  | ContentDelta "string option"
  | Assistant "string option"
  | Result cli_result
  | Error string
  | Close "int option"
  | ResumeFailedSignal string
  | StartRejected string
  | ResClose
  | TimersPhase
  | TelegramReplied "int option"

text \<open>
  The readings of \<open>Date.now()\<close> while one listener runs: \<open>clk 0\<close> is the first reading,
  \<open>clk 1\<close> the second, and so on.
\<close>

type_synonym clock = "nat \<Rightarrow> int"

text \<open>A decimal numeral, and \<open>${code}\<close> for an exit code that may be \<open>null\<close>.\<close>

fun show_nat :: "nat \<Rightarrow> string" where
  "show_nat n =
     (if n < 10 then [''0123456789'' ! n]
      else show_nat (n div 10) @ [''0123456789'' ! (n mod 10)])"

declare show_nat.simps [simp del]

definition show_code :: "int option \<Rightarrow> string" where
  "show_code code =
     (case code of
        None \<Rightarrow> ''null''
      | Some n \<Rightarrow> if n < 0 then ''-'' @ show_nat (nat (- n)) else show_nat (nat n))"

definition timeout_notice :: string where
  "timeout_notice = [CHR 0xE2, CHR 0x9A, CHR 0xA0, CHR 0xEF, CHR 0xB8, CHR 0x8F, CHR 0x20,
     CHR 0xE4, CHR 0xBB, CHR 0xBB, CHR 0xE5, CHR 0x8B, CHR 0x99, CHR 0xE8, CHR 0xB6, CHR 0x85,
     CHR 0xE6, CHR 0x99, CHR 0x82, CHR 0xE8, CHR 0xA2, CHR 0xAB, CHR 0xE7, CHR 0xB5, CHR 0x82,
     CHR 0xE6, CHR 0xAD, CHR 0xA2, CHR 0xEF, CHR 0xBC, CHR 0x9A]"

text \<open>
  \<open>notifyTelegram\<close>: with \<open>TELEGRAM_NOTIFY_ID\<close> set, the helper is spawned with the
  message; the list holds the messages of the spawned helpers.
\<close>

definition notifyTelegram :: "string option \<Rightarrow> string \<Rightarrow> string list \<Rightarrow> string list" where
  "notifyTelegram telegramId message spawned =
     (if \<not> truthy_str telegramId then spawned else spawned @ [message])"


section \<open>Streaming handler (handleStreamingResponse)\<close>

text \<open>
  What \<open>res.write\<close> is called with: the initial comment, \<open>data:\<close> followed by the JSON
  of a chunk, \<open>data:\<close> followed by the JSON of an error object with the given message,
  and the \<open>[DONE]\<close> marker.
\<close>

datatype sse_write = OkComment | DataChunk chunk | DataError string | DoneMarker

text \<open>
  The response and the variables of the closure. \<open>wrote\<close> is what has been written
  to the client; \<open>closed\<close> is set once the response stream has emitted \<open>close\<close>,
  after which a write reaches nobody. \<open>kills\<close> counts the calls of
  \<open>subprocess.kill()\<close>.
\<close>

record streaming =
  requestId :: string
  notifyId :: "string option"
  headers :: "(string \<times> string) list"
  wrote :: "sse_write list"
  writableEnded :: bool
  closed :: bool
  lastModel :: "string option"
  isComplete :: bool
  turnBuffer :: "string list"
  turnCount :: nat
  progress :: reporter
  kills :: nat
  spawned :: "string list"
  resolved :: bool
  rejected :: bool

definition res_write :: "sse_write \<Rightarrow> streaming \<Rightarrow> streaming" where
  "res_write x st = (if closed st then st else st\<lparr>wrote := wrote st @ [x]\<rparr>)"

definition res_end :: "streaming \<Rightarrow> streaming" where
  "res_end st = st\<lparr>writableEnded := True\<rparr>"

text \<open>The handler up to the registration of its listeners.\<close>

definition streaming_start :: "string \<Rightarrow> string option \<Rightarrow> streaming" where
  "streaming_start rid telegramId =
     \<lparr>requestId = rid, notifyId = telegramId,
      headers = [(''Content-Type'', ''text/event-stream''), (''Cache-Control'', ''no-cache''),
                 (''Connection'', ''keep-alive''), (''X-Request-Id'', rid)],
      wrote = [OkComment], writableEnded = False, closed = False,
      lastModel = Some ''claude-sonnet-4'', isComplete = False,
      turnBuffer = [], turnCount = 0,
      progress = new_reporter (if truthy_str telegramId then telegramId else None),
      kills = 0, spawned = [], resolved = False, rejected = False\<rparr>"

definition on_message :: "clock \<Rightarrow> cli_message \<Rightarrow> streaming \<Rightarrow> streaming" where
  "on_message clk msg st =
     (case msg of
        OtherMessage \<Rightarrow> st
      | StreamEventMsg eventType \<Rightarrow>
          (let st1 =
             (case eventType of
                Some (ContentBlockStart (Some (ToolUse name))) \<Rightarrow>
                  if truthy_str name
                  then st\<lparr>progress := report (the name) (clk 0) (clk 1) (progress st)\<rparr>
                  else st
              | _ \<Rightarrow> st)
           in case eventType of
                Some MessageStart \<Rightarrow> st1\<lparr>turnCount := turnCount st1 + 1, turnBuffer := []\<rparr>
              | _ \<Rightarrow> st1))"

definition on_content_delta :: "string option \<Rightarrow> streaming \<Rightarrow> streaming" where
  "on_content_delta delta_text st =
     (let text = or_str delta_text ''''
      in if text \<noteq> [] then st\<lparr>turnBuffer := turnBuffer st @ [text]\<rparr> else st)"

definition on_assistant :: "string option \<Rightarrow> streaming \<Rightarrow> streaming" where
  "on_assistant mdl st = st\<lparr>lastModel := mdl\<rparr>"

text \<open>
  The loop of the \<open>result\<close> listener over the buffered deltas: \<open>i\<close> counts the
  readings of the clock taken so far, one per chunk.
\<close>

fun write_deltas :: "clock \<Rightarrow> nat \<Rightarrow> bool \<Rightarrow> string list \<Rightarrow> streaming \<Rightarrow> streaming" where
  "write_deltas clk i isFirst [] st = st"
| "write_deltas clk i isFirst (text # rest) st =
     write_deltas clk (i + 1) False rest
       (res_write (DataChunk
          \<lparr>chunk_id = ''chatcmpl-'' @ requestId st, chunk_object = ''chat.completion.chunk'',
           chunk_created = clk i div 1000, chunk_model = lastModel st, choice_index = 0,
           delta_role = (if isFirst then Some ''assistant'' else None),
           delta_content = Some text, finish_reason = None\<rparr>) st)"

definition on_result :: "clock \<Rightarrow> streaming \<Rightarrow> streaming" where
  "on_result clk st =
     (let st1 = st\<lparr>isComplete := True\<rparr>;
          st2 = st1\<lparr>progress := cleanup_reporter (progress st1)\<rparr>;
          st3 =
            (if \<not> writableEnded st2 then
               (let n = length (turnBuffer st2);
                    st4 = write_deltas clk 0 True (turnBuffer st2) st2;
                    st5 = st4\<lparr>turnBuffer := []\<rparr>;
                    doneChunk = createDoneChunk (requestId st5) (lastModel st5) (clk n);
                    st6 = res_write (DataChunk doneChunk) st5;
                    st7 = res_write DoneMarker st6
                in res_end st7)
             else st2)
      in st3\<lparr>resolved := True\<rparr>)"

definition on_error :: "string \<Rightarrow> streaming \<Rightarrow> streaming" where
  "on_error message st =
     (let st1 = st\<lparr>progress := cleanup_reporter (progress st)\<rparr>;
          st2 = (if str_includes message ''timed out''
                 then st1\<lparr>spawned := notifyTelegram (notifyId st1) (timeout_notice @ message)
                                         (spawned st1)\<rparr>
                 else st1);
          st3 = (if \<not> writableEnded st2 then res_end (res_write (DataError message) st2)
                 else st2)
      in st3\<lparr>resolved := True\<rparr>)"

definition on_close :: "int option \<Rightarrow> streaming \<Rightarrow> streaming" where
  "on_close code st =
     (let st1 =
        (if \<not> writableEnded st then
           (let st2 = (if code \<noteq> Some 0 \<and> \<not> isComplete st
                       then res_write (DataError (''Process exited with code '' @ show_code code)) st
                       else st)
            in res_end (res_write DoneMarker st2))
         else st)
      in st1\<lparr>resolved := True\<rparr>)"

definition on_res_close :: "streaming \<Rightarrow> streaming" where
  "on_res_close st =
     (let st0 = st\<lparr>closed := True\<rparr>;
          st1 = (if \<not> isComplete st0
                 then st0\<lparr>kills := kills st0 + 1,
                          progress := cleanup_reporter (progress st0)\<rparr>
                 else st0)
      in st1\<lparr>resolved := True\<rparr>)"

fun streaming_step :: "clock \<Rightarrow> event \<Rightarrow> streaming \<Rightarrow> streaming" where
  "streaming_step clk (Message msg) st = on_message clk msg st"
| "streaming_step clk (ContentDelta t) st = on_content_delta t st"
| "streaming_step clk (Assistant mdl) st = on_assistant mdl st"
| "streaming_step clk (Result r) st = on_result clk st"
| "streaming_step clk (Error message) st = on_error message st"
| "streaming_step clk (Close code) st = on_close code st"
| "streaming_step clk (ResumeFailedSignal t) st = st"
| "streaming_step clk (StartRejected e) st = st\<lparr>rejected := True\<rparr>"
| "streaming_step clk ResClose st = on_res_close st"
| "streaming_step clk TimersPhase st = st\<lparr>progress := run_timers (clk 0) (progress st)\<rparr>"
| "streaming_step clk (TelegramReplied reply) st =
     st\<lparr>progress := send_returned reply (progress st)\<rparr>"

fun streaming_run :: "(clock \<times> event) list \<Rightarrow> streaming \<Rightarrow> streaming" where
  "streaming_run [] st = st"
| "streaming_run ((clk, e) # es) st = streaming_run es (streaming_step clk e st)"

text \<open>
  What an OpenAI client assembles from the stream: the contents of the chunk deltas, in
  the order written.
\<close>

fun client_text :: "sse_write list \<Rightarrow> string" where
  "client_text [] = []"
| "client_text (DataChunk c # ws) = or_str (delta_content c) '''' @ client_text ws"
| "client_text (_ # ws) = client_text ws"

text \<open>
  The delta texts of a sequence of events, and the part of a sequence after its last
  \<open>message_start\<close> (the whole sequence when there is none).
\<close>

fun delta_texts :: "event list \<Rightarrow> string list" where
  "delta_texts [] = []"
| "delta_texts (ContentDelta t # es) = or_str t '''' # delta_texts es"
| "delta_texts (_ # es) = delta_texts es"

definition is_message_start :: "event \<Rightarrow> bool" where
  "is_message_start e = (e = Message (StreamEventMsg (Some MessageStart)))"

definition after_last_start :: "event list \<Rightarrow> event list" where
  "after_last_start es = rev (takeWhile (\<lambda>e. \<not> is_message_start e) (rev es))"

text \<open>
  The events that may come before the terminal \<open>result\<close> of an undisturbed stream:
  messages, deltas and assistant messages of the CLI, and the timer and reply events of
  the progress reporter; no error, exit or disconnect, and no earlier \<open>result\<close>.
\<close>

fun streams_on :: "event \<Rightarrow> bool" where
  "streams_on (Message m) = True"
| "streams_on (ContentDelta t) = True"
| "streams_on (Assistant mdl) = True"
| "streams_on TimersPhase = True"
| "streams_on (TelegramReplied r) = True"
| "streams_on _ = False"


section \<open>Non-streaming handler (handleNonStreamingResponse)\<close>

datatype body = Completion completion | ErrorBody string

datatype fault = ERR_HTTP_HEADERS_SENT

text \<open>
  \<open>sent\<close> lists the responses sent, each with its status code and its JSON body;
  \<open>res.headersSent\<close> holds once there is one, and \<open>res.json\<close> then throws.
\<close>

record nonstreaming =
  ns_requestId :: string
  ns_notifyId :: "string option"
  finalResult :: "cli_result option"
  sent :: "(nat \<times> body) list"
  ns_spawned :: "string list"
  ns_resolved :: bool

definition nonstreaming_start :: "string \<Rightarrow> string option \<Rightarrow> nonstreaming" where
  "nonstreaming_start rid telegramId =
     \<lparr>ns_requestId = rid, ns_notifyId = telegramId, finalResult = None, sent = [],
      ns_spawned = [], ns_resolved = False\<rparr>"

definition headersSent :: "nonstreaming \<Rightarrow> bool" where
  "headersSent st = (sent st \<noteq> [])"

definition res_json :: "nat \<Rightarrow> body \<Rightarrow> nonstreaming \<Rightarrow> fault + nonstreaming" where
  "res_json status b st =
     (if headersSent st then Inl ERR_HTTP_HEADERS_SENT
      else Inr (st\<lparr>sent := sent st @ [(status, b)]\<rparr>))"

definition resolve :: "fault + nonstreaming \<Rightarrow> fault + nonstreaming" where
  "resolve x = (case x of Inl f \<Rightarrow> Inl f | Inr st \<Rightarrow> Inr (st\<lparr>ns_resolved := True\<rparr>))"

definition exit_message :: "int option \<Rightarrow> string" where
  "exit_message code = ''Claude CLI exited with code '' @ show_code code @ '' without response''"

fun nonstreaming_step :: "clock \<Rightarrow> event \<Rightarrow> nonstreaming \<Rightarrow> fault + nonstreaming" where
  "nonstreaming_step clk (Result r) st = Inr (st\<lparr>finalResult := Some r\<rparr>)"
| "nonstreaming_step clk (Error message) st =
     (let st1 = (if str_includes message ''timed out''
                 then st\<lparr>ns_spawned := notifyTelegram (ns_notifyId st) (timeout_notice @ message)
                                           (ns_spawned st)\<rparr>
                 else st)
      in resolve (res_json 500 (ErrorBody message) st1))"
| "nonstreaming_step clk (Close code) st =
     (case finalResult st of
        Some r \<Rightarrow> resolve (res_json 200 (Completion (cliResultToOpenai r (ns_requestId st) (clk 0))) st)
      | None \<Rightarrow>
          if \<not> headersSent st
          then resolve (res_json 500 (ErrorBody (exit_message code)) st)
          else resolve (Inr st))"
| "nonstreaming_step clk (StartRejected message) st = resolve (res_json 500 (ErrorBody message) st)"
| "nonstreaming_step clk _ st = Inr st"

text \<open>A run stops at the first listener that throws.\<close>

fun nonstreaming_run :: "(clock \<times> event) list \<Rightarrow> nonstreaming \<Rightarrow> fault + nonstreaming" where
  "nonstreaming_run [] st = Inr st"
| "nonstreaming_run ((clk, e) # es) st =
     (case nonstreaming_step clk e st of Inl f \<Rightarrow> Inl f | Inr st1 \<Rightarrow> nonstreaming_run es st1)"

text \<open>The results and the error messages among a sequence of events.\<close>

fun results :: "event list \<Rightarrow> cli_result list" where
  "results [] = []"
| "results (Result r # es) = r # results es"
| "results (_ # es) = results es"

fun errors :: "event list \<Rightarrow> string list" where
  "errors [] = []"
| "errors (Error m # es) = m # errors es"
| "errors (_ # es) = errors es"

text \<open>The events of the subprocess before its exit: no \<open>close\<close>, no failed start.\<close>

fun before_close :: "event \<Rightarrow> bool" where
  "before_close (Close c) = False"
| "before_close (StartRejected m) = False"
| "before_close _ = True"


section \<open>The request as a whole (handleChatCompletions)\<close>

text \<open>
  A request that has passed the validation of \<open>body.messages\<close>: the session manager,
  \<open>body.user\<close>, the session options given to the subprocess, the number of calls of
  \<open>subprocess.start\<close>, and the state of the response handler chosen by \<open>body.stream\<close>.
  The prompt, the model and the system prompt of the subprocess come from
  \<open>openaiToCli\<close>, which is not part of the sources at hand, and are left out.
\<close>

datatype handler_state = Streaming streaming | NonStreaming nonstreaming

record request =
  store :: manager
  conversation :: "string option"
  resumeSessionId :: "string option"
  sessionId :: "string option"
  starts :: nat
  handler :: handler_state

definition handleChatCompletions ::
  "bool \<Rightarrow> string \<Rightarrow> string option \<Rightarrow> string \<Rightarrow> int \<Rightarrow> int \<Rightarrow> string option \<Rightarrow> string option
     \<Rightarrow> manager \<Rightarrow> request" where
  "handleChatCompletions stream rid telegramId uuid t1 t2 user mdl m =
     (let ((hasExistingSession, sid), m1) = session_block uuid t1 t2 user mdl m
      in \<lparr>store = m1, conversation = user,
          resumeSessionId = (if hasExistingSession \<and> truthy_str sid then sid else None),
          sessionId = (if hasExistingSession \<and> truthy_str sid then None
                       else if truthy_str sid then sid else None),
          starts = 1,
          handler = (if stream then Streaming (streaming_start rid telegramId)
                     else NonStreaming (nonstreaming_start rid telegramId))\<rparr>)"

text \<open>
  One event of the subprocess or of the response: \<open>resume_failed\<close> goes to the
  listener of \<open>handleChatCompletions\<close>, every event to the listeners of the response
  handler.
\<close>

definition request_step :: "clock \<Rightarrow> event \<Rightarrow> request \<Rightarrow> fault + request" where
  "request_step clk e rq =
     (let rq1 = (case e of
                   ResumeFailedSignal errorText \<Rightarrow>
                     rq\<lparr>store := on_resume_failed (conversation rq) (store rq)\<rparr>
                 | _ \<Rightarrow> rq)
      in case handler rq1 of
           Streaming st \<Rightarrow> Inr (rq1\<lparr>handler := Streaming (streaming_step clk e st)\<rparr>)
         | NonStreaming st \<Rightarrow>
             (case nonstreaming_step clk e st of
                Inl f \<Rightarrow> Inl f
              | Inr st1 \<Rightarrow> Inr (rq1\<lparr>handler := NonStreaming st1\<rparr>)))"

fun request_run :: "(clock \<times> event) list \<Rightarrow> request \<Rightarrow> fault + request" where
  "request_run [] rq = Inr rq"
| "request_run ((clk, e) # es) rq =
     (case request_step clk e rq of Inl f \<Rightarrow> Inl f | Inr rq1 \<Rightarrow> request_run es rq1)"

text \<open>
  Modelled from the spec: the subprocess manager (dist/subprocess/manager.js) is not
  among the sources at hand. By the specification, when the child reports that the
  requested resume session is invalid or unknown the supervisor emits \<open>resume_failed\<close>
  with the text of the report, and on the exit of the process it emits the exit code,
  here a process that ends with no terminal result.
\<close>

definition resume_failure :: "clock \<Rightarrow> string \<Rightarrow> int option \<Rightarrow> (clock \<times> event) list" where
  "resume_failure clk errorText code = [(clk, ResumeFailedSignal errorText), (clk, Close code)]"


section \<open>Invariants and auxiliary notions\<close>

text \<open>A clock that stands still while a listener runs.\<close>

definition steady :: "int \<Rightarrow> clock" where
  "steady t = (\<lambda>n. t)"

text \<open>The bound and the absence of neighbouring repetitions in the tool history.\<close>

definition history_ok :: "reporter \<Rightarrow> bool" where
  "history_ok r = (length (toolHistory r) \<le> 6 \<and> distinct_adj (toolHistory r))"

text \<open>
  The state of the throttle between events of a punctual run: the flushes so far are
  spaced, the last of them is the one recorded in \<open>lastUpdateAt\<close>, and an armed timeout
  is due one interval after it.
\<close>

definition throttle_ok :: "reporter \<Rightarrow> bool" where
  "throttle_ok r =
     (spaced MIN_UPDATE_INTERVAL (flush_times (calls r))
      \<and> (flush_times (calls r) \<noteq> [] \<longrightarrow> last (flush_times (calls r)) = lastUpdateAt r)
      \<and> (case throttleTimer r of None \<Rightarrow> True
          | Some due \<Rightarrow> due = lastUpdateAt r + MIN_UPDATE_INTERVAL))"

text \<open>
  A report that is throttled leaves a timeout armed, and the callback of an armed
  timeout that has fallen due flushes once and disarms it.
\<close>

definition pending_ok :: "reporter \<Rightarrow> bool" where
  "pending_ok r = (\<not> isDeleted r \<and> pendingLabel r \<noteq> None \<longrightarrow> throttleTimer r \<noteq> None)"

text \<open>What the events before the result leave untouched in the streaming handler.\<close>

definition same_response :: "streaming \<Rightarrow> streaming \<Rightarrow> bool" where
  "same_response st st0 =
     (wrote st = wrote st0 \<and> writableEnded st = writableEnded st0 \<and> closed st = closed st0
      \<and> requestId st = requestId st0 \<and> isComplete st = isComplete st0)"


section \<open>Properties of the session manager\<close>

subsection \<open>Helper facts\<close>

lemma update_absent: "map_of al k = None \<Longrightarrow> AList.update k v al = al @ [(k, v)]"
  by (induction al) (auto split: if_splits)

lemma getOrCreate_absent:
  "get cid m = None \<Longrightarrow>
   getOrCreate uuid t1 t2 cid mdl m =
     (uuid, save (m\<lparr>sessions := sessions m @
        [(cid, \<lparr>conversationId = cid, claudeSessionId = uuid, createdAt = t1, lastUsedAt = t2,
                model = (case mdl of None \<Rightarrow> ''sonnet'' | Some x \<Rightarrow> x),
                messageCount = None\<rparr>)]\<rparr>))"
  by (simp add: get_def getOrCreate_def Let_def update_absent)

lemma getOrCreate_present:
  "get cid m = Some s \<Longrightarrow>
   getOrCreate uuid t1 t2 cid mdl m =
     (claudeSessionId s,
      m\<lparr>sessions := AList.update cid
            (s\<lparr>lastUsedAt := t1, model := (case mdl of None \<Rightarrow> ''sonnet'' | Some x \<Rightarrow> x)\<rparr>)
            (sessions m)\<rparr>)"
  by (simp add: get_def getOrCreate_def Let_def)

lemma getOrCreate_existing_skips_save:
  "get cid m = Some s \<Longrightarrow> written (snd (getOrCreate uuid t1 t2 cid mdl m)) = written m"
  by (simp add: get_def getOrCreate_def Let_def)

lemma getOrCreate_create_saves:
  "get cid m = None \<Longrightarrow>
   written (snd (getOrCreate uuid t1 t2 cid mdl m)) =
     written m @ [sessions (snd (getOrCreate uuid t1 t2 cid mdl m))]"
  by (simp add: get_def getOrCreate_def Let_def save_def)

lemma delete_saves:
  "get cid m \<noteq> None \<Longrightarrow>
   written (snd (delete cid m)) = written m @ [sessions (snd (delete cid m))]"
  by (auto simp add: get_def delete_def Let_def save_def)

lemma cleanup_loop_written: "written (snd (cleanup_loop cutoff es m r)) = written m"
  by (induction cutoff es m r rule: cleanup_loop.induct) auto

lemma cleanup_saves:
  "0 < fst (cleanup now m) \<Longrightarrow>
   written (snd (cleanup now m)) = written m @ [sessions (snd (cleanup now m))]"
  using cleanup_loop_written [of "now - SESSION_TTL_MS" "sessions m" m 0]
  by (auto simp: cleanup_def Let_def save_def split: prod.splits)


lemma cleanup_loop_count:
  "fst (cleanup_loop cutoff es m r) = r + length (filter (\<lambda>(k, s). lastUsedAt s < cutoff) es)"
  by (induction cutoff es m r rule: cleanup_loop.induct) auto




subsection \<open>First and second call of getOrCreate\<close>

text \<open>
  C2. For a conversation id with no stored session, \<open>getOrCreate\<close> returns the fresh
  provider session id, appends the new mapping to the session map and hands the map to
  \<open>save\<close>. A second call with the same conversation id returns the same provider
  session id, leaves the keys of the map as they are, and sets \<open>lastUsedAt\<close> to its own
  clock reading, which is no smaller than the stored one when the clock has not gone
  backwards between the calls.
\<close>

theorem getOrCreate_twice:
  assumes absent: "get cid m = None"
    and clock: "t2 \<le> t3"
  shows "(let (sid, m1) = getOrCreate uuid t1 t2 cid mdl m;
              (sid2, m2) = getOrCreate uuid2 t3 t4 cid mdl2 m1
          in sid = uuid
           \<and> sessions m1 = sessions m @
                 [(cid, \<lparr>conversationId = cid, claudeSessionId = uuid, createdAt = t1,
                         lastUsedAt = t2,
                         model = (case mdl of None \<Rightarrow> ''sonnet'' | Some x \<Rightarrow> x),
                         messageCount = None\<rparr>)]
           \<and> written m1 = written m @ [sessions m1]
           \<and> sid2 = sid
           \<and> map fst (sessions m2) = map fst (sessions m1)
           \<and> (\<exists>s1 s2. get cid m1 = Some s1 \<and> get cid m2 = Some s2
                 \<and> claudeSessionId s2 = claudeSessionId s1
                 \<and> lastUsedAt s2 = t3 \<and> lastUsedAt s1 \<le> lastUsedAt s2))"
proof -
  define mapping where "mapping = \<lparr>conversationId = cid, claudeSessionId = uuid, createdAt = t1,
      lastUsedAt = t2, model = (case mdl of None \<Rightarrow> ''sonnet'' | Some x \<Rightarrow> x),
      messageCount = None\<rparr>"
  define m1 where "m1 = save (m\<lparr>sessions := sessions m @ [(cid, mapping)]\<rparr>)"
  have first: "getOrCreate uuid t1 t2 cid mdl m = (uuid, m1)"
    using getOrCreate_absent [OF absent] by (simp add: m1_def mapping_def)
  have stored: "get cid m1 = Some mapping"
    using absent by (simp add: m1_def get_def save_def map_add_def)
  define m2 where "m2 = m1\<lparr>sessions := AList.update cid
      (mapping\<lparr>lastUsedAt := t3, model := (case mdl2 of None \<Rightarrow> ''sonnet'' | Some x \<Rightarrow> x)\<rparr>)
      (sessions m1)\<rparr>"
  have second: "getOrCreate uuid2 t3 t4 cid mdl2 m1 = (claudeSessionId mapping, m2)"
    using getOrCreate_present [OF stored] by (simp add: m2_def)
  have keys: "map fst (sessions m2) = map fst (sessions m1)"
    by (simp add: m2_def m1_def save_def update_keys)
  have again: "get cid m2 = Some (mapping\<lparr>lastUsedAt := t3,
      model := (case mdl2 of None \<Rightarrow> ''sonnet'' | Some x \<Rightarrow> x)\<rparr>)"
    by (simp add: m2_def get_def update_conv')
  have "sessions m1 = sessions m @ [(cid, mapping)]" "written m1 = written m @ [sessions m1]"
    by (simp_all add: m1_def save_def)
  moreover have "claudeSessionId mapping = uuid" "lastUsedAt mapping = t2"
    by (simp_all add: mapping_def)
  ultimately show ?thesis
    using first second keys stored again clock
    by (simp add: mapping_def)
qed

theorem getOrCreate_twice_witness:
  "get ''c1'' new_manager = None \<and> (1001::int) \<le> 5000 \<and>
   (let (sid, m1) = getOrCreate ''u1'' 1000 1001 ''c1'' (Some ''sonnet'') new_manager;
        (sid2, m2) = getOrCreate ''u2'' 5000 5001 ''c1'' (Some ''sonnet'') m1
    in sid = ''u1'' \<and> sid2 = ''u1'' \<and> length (sessions m2) = 1
       \<and> map (lastUsedAt \<circ> snd) (sessions m1) = [1001]
       \<and> map (lastUsedAt \<circ> snd) (sessions m2) = [5000])"
  using getOrCreate_twice [of "''c1''" new_manager 1001 5000 "''u1''" 1000 "Some ''sonnet''" "''u2''" 5001 "Some ''sonnet''"]
  by (simp add: get_def new_manager_def getOrCreate_def Let_def save_def)

subsection \<open>Which operations save\<close>

text \<open>
  C3. The existing-session path of \<open>getOrCreate\<close> changes the stored mapping and does
  not call \<open>save\<close>: after creating the session of \<open>c1\<close> at 1001 and calling
  \<open>getOrCreate\<close> for \<open>c1\<close> again at 5000 with another model, the session map differs
  from the one before the call, no document has been written by the call, and the last
  written document is not the current map. (The create path, \<open>delete\<close> and
  \<open>cleanup\<close> do save whenever they change the map: \<open>getOrCreate_create_saves\<close>,
  \<open>delete_saves\<close>, \<open>cleanup_saves\<close>.)
\<close>

theorem getOrCreate_existing_not_saved:
  "(let m1 = snd (getOrCreate ''u1'' 1000 1001 ''c1'' (Some ''sonnet'') new_manager);
        m2 = snd (getOrCreate ''u2'' 5000 5001 ''c1'' (Some ''opus'') m1)
    in sessions m2 \<noteq> sessions m1 \<and> written m2 = written m1
       \<and> last (written m2) \<noteq> sessions m2)"
  by (simp add: new_manager_def getOrCreate_def Let_def save_def)


subsection \<open>The provider session id of a mapping\<close>





lemma steady_apply: "steady t n = t"
  by (simp add: steady_def)


section \<open>Properties of the progress reporter\<close>

subsection \<open>The tool history\<close>

lemma distinct_adj_drop: "distinct_adj xs \<Longrightarrow> distinct_adj (drop n xs)"
proof (induction xs arbitrary: n)
  case Nil
  then show ?case by simp
next
  case (Cons x xs)
  then show ?case by (cases n) (auto dest: distinct_adj_ConsD)
qed

lemma flush_toolHistory: "toolHistory (flush now r) = toolHistory r"
  by (simp add: flush_def Let_def)

lemma report_history_ok: "history_ok r \<Longrightarrow> history_ok (report n now now2 r)"
  by (auto simp: history_ok_def report_def Let_def flush_toolHistory distinct_adj_append_iff
      intro: distinct_adj_drop)

lemma step_history_ok: "history_ok r \<Longrightarrow> history_ok (reporter_step e r)"
proof (cases e)
  case (Report n now now2)
  then show "history_ok r \<Longrightarrow> ?thesis" by (simp add: report_history_ok)
next
  case (Timers now)
  then show "history_ok r \<Longrightarrow> ?thesis"
    by (simp add: run_timers_def timer_callback_def Let_def history_ok_def flush_toolHistory
        split: option.splits)
next
  case (SendReturned reply)
  then show "history_ok r \<Longrightarrow> ?thesis"
    by (simp add: send_returned_def Let_def history_ok_def split: option.splits)
next
  case CleanupReporter
  then show "history_ok r \<Longrightarrow> ?thesis"
    by (simp add: cleanup_reporter_def Let_def history_ok_def)
qed

lemma run_history_ok: "history_ok r \<Longrightarrow> history_ok (reporter_run es r)"
  by (induction es arbitrary: r) (auto simp: step_history_ok)

text \<open>
  C6. After any run of reporter events (reports with any tool names, timer phases,
  returns of \<open>sendMessage\<close>, cleanups) the tool history has at most 6 entries and no
  two neighbouring entries are equal.
\<close>

theorem history_bounded_no_repeats:
  "length (toolHistory (reporter_run es (new_reporter chat))) \<le> 6 \<and>
   distinct_adj (toolHistory (reporter_run es (new_reporter chat)))"
proof -
  have "history_ok (new_reporter chat)" by (simp add: history_ok_def new_reporter_def)
  then have "history_ok (reporter_run es (new_reporter chat))" by (rule run_history_ok)
  then show ?thesis by (simp add: history_ok_def)
qed


subsection \<open>Throttling\<close>

lemma flush_times_append: "flush_times (cs @ ds) = flush_times cs @ flush_times ds"
  by (induction cs rule: flush_times.induct) auto

lemma spaced_snoc:
  "spaced d (ts @ [u]) \<longleftrightarrow> spaced d ts \<and> (ts = [] \<or> last ts + d \<le> u)"
  by (induction d ts rule: spaced.induct) auto

lemma flush_throttle_ok:
  assumes "throttle_ok r" and "throttleTimer r = None"
    and "lastUpdateAt r + MIN_UPDATE_INTERVAL \<le> now"
  shows "throttle_ok (flush now r)"
  using assms
  by (auto simp: throttle_ok_def flush_def Let_def flush_times_append spaced_snoc)

lemma report_throttle_ok:
  assumes ok: "throttle_ok r"
    and punct: "case throttleTimer r of None \<Rightarrow> True | Some due \<Rightarrow> now < due"
    and rd: "now \<le> now2"
  shows "throttle_ok (report n now now2 r)"
proof -
  define h where "h = toolHistory r @ [tool_label n]"
  define h6 where "h6 = (if length h > 6 then drop (length h - 6) h else h)"
  define r1 where "r1 = r\<lparr>toolHistory := h6\<rparr>"
  have ok1: "throttle_ok r1" using ok by (simp add: r1_def throttle_ok_def split: option.splits)
  have same: "throttleTimer r1 = throttleTimer r" "lastUpdateAt r1 = lastUpdateAt r"
    by (simp_all add: r1_def)
  show ?thesis
  proof (cases "isDeleted r \<or> \<not> truthy_str (chatId r)
        \<or> (length (toolHistory r) > 0 \<and> last (toolHistory r) = tool_label n)")
    case True
    then have "report n now now2 r = r" by (auto simp: report_def Let_def)
    with ok show ?thesis by simp
  next
    case False
    show ?thesis
    proof (cases "now - lastUpdateAt r \<ge> MIN_UPDATE_INTERVAL")
      case True
      with False have eq: "report n now now2 r = flush now2 r1"
        by (auto simp: report_def Let_def r1_def h6_def h_def)
      have none: "throttleTimer r = None"
      proof (cases "throttleTimer r")
        case None then show ?thesis .
      next
        case (Some due)
        with ok have "due = lastUpdateAt r + MIN_UPDATE_INTERVAL" by (simp add: throttle_ok_def)
        moreover from Some punct have "now < due" by simp
        ultimately show ?thesis using True by simp
      qed
      from True rd have "lastUpdateAt r1 + MIN_UPDATE_INTERVAL \<le> now2" by (simp add: same)
      with ok1 none show ?thesis unfolding eq by (intro flush_throttle_ok) (simp_all add: same)
    next
      case el: False
      with False have eq: "report n now now2 r =
          (let r2 = r1\<lparr>pendingLabel := Some (tool_label n)\<rparr>
           in if throttleTimer r2 = None
              then r2\<lparr>throttleTimer := Some (now + (MIN_UPDATE_INTERVAL - (now - lastUpdateAt r1)))\<rparr>
              else r2)"
        by (auto simp: report_def Let_def r1_def h6_def h_def)
      show ?thesis unfolding eq using ok1
        by (auto simp: Let_def throttle_ok_def split: option.splits)
    qed
  qed
qed

lemma run_timers_throttle_ok: "throttle_ok r \<Longrightarrow> throttle_ok (run_timers now r)"
proof (cases "throttleTimer r")
  case None
  then show "throttle_ok r \<Longrightarrow> ?thesis" by (simp add: run_timers_def)
next
  case (Some due)
  assume ok: "throttle_ok r"
  with Some have due: "due = lastUpdateAt r + MIN_UPDATE_INTERVAL" by (simp add: throttle_ok_def)
  show ?thesis
  proof (cases "due \<le> now")
    case False
    with Some ok show ?thesis by (simp add: run_timers_def)
  next
    case True
    define r1 where "r1 = r\<lparr>throttleTimer := None\<rparr>"
    have ok1: "throttle_ok r1" using ok by (simp add: r1_def throttle_ok_def split: option.splits)
    have "throttle_ok (flush now r1)"
      using ok1 True due by (intro flush_throttle_ok) (simp_all add: r1_def)
    with ok1 Some True show ?thesis
      by (simp add: run_timers_def timer_callback_def Let_def r1_def)
  qed
qed

lemma send_returned_throttle_ok: "throttle_ok r \<Longrightarrow> throttle_ok (send_returned reply r)"
  by (simp add: send_returned_def Let_def throttle_ok_def split: option.splits)

lemma flush_times_snoc_delete: "flush_times (cs @ [DeleteMessage c m]) = flush_times cs"
  by (simp add: flush_times_append)

lemma cleanup_throttle_ok: "throttle_ok r \<Longrightarrow> throttle_ok (cleanup_reporter r)"
  by (simp add: cleanup_reporter_def Let_def throttle_ok_def flush_times_snoc_delete split: option.splits)

lemma punctual_throttle_ok:
  "well_timed t es \<Longrightarrow> punctual es r \<Longrightarrow> throttle_ok r \<Longrightarrow> throttle_ok (reporter_run es r)"
proof (induction es arbitrary: t r)
  case Nil
  then show ?case by simp
next
  case (Cons e es)
  show ?case
  proof (cases e)
    case (Report n now now2)
    with Cons.prems have "throttle_ok (report n now now2 r)"
      by (intro report_throttle_ok) simp_all
    with Cons Report show ?thesis by auto
  next
    case (Timers now)
    with Cons.prems have "throttle_ok (run_timers now r)"
      by (intro run_timers_throttle_ok)
    with Cons Timers show ?thesis by auto
  next
    case (SendReturned reply)
    with Cons.prems have "throttle_ok (send_returned reply r)"
      by (intro send_returned_throttle_ok)
    with Cons SendReturned show ?thesis by auto
  next
    case CleanupReporter
    with Cons.prems have "throttle_ok (cleanup_reporter r)"
      by (intro cleanup_throttle_ok)
    with Cons CleanupReporter show ?thesis by auto
  qed
qed

lemma punctual_flushes_spaced:
  assumes "well_timed t es" and "punctual es (new_reporter chat)"
  shows "spaced MIN_UPDATE_INTERVAL (flush_times (calls (reporter_run es (new_reporter chat))))"
proof -
  have "throttle_ok (new_reporter chat)" by (simp add: throttle_ok_def new_reporter_def)
  with assms have "throttle_ok (reporter_run es (new_reporter chat))"
    by (intro punctual_throttle_ok)
  then show ?thesis by (simp add: throttle_ok_def)
qed


lemma flush_pending: "\<not> isDeleted r \<Longrightarrow> pendingLabel (flush now r) = None"
  by (simp add: flush_def Let_def)

lemma flush_deleted: "isDeleted (flush now r) = isDeleted r"
  by (simp add: flush_def Let_def)

lemma step_pending_ok: "pending_ok r \<Longrightarrow> pending_ok (reporter_step e r)"
proof (cases e)
  case (Report n now now2)
  then show "pending_ok r \<Longrightarrow> ?thesis"
    by (auto simp: pending_ok_def report_def Let_def flush_pending flush_deleted)
next
  case (Timers now)
  then show "pending_ok r \<Longrightarrow> ?thesis"
    by (auto simp: pending_ok_def run_timers_def timer_callback_def Let_def flush_pending
        flush_deleted split: option.splits)
next
  case (SendReturned reply)
  then show "pending_ok r \<Longrightarrow> ?thesis"
    by (auto simp: pending_ok_def send_returned_def Let_def split: option.splits)
next
  case CleanupReporter
  then show "pending_ok r \<Longrightarrow> ?thesis"
    by (auto simp: pending_ok_def cleanup_reporter_def Let_def)
qed

lemma pending_has_timer:
  "pending_ok (reporter_run es (new_reporter chat))"
proof -
  have "pending_ok r \<Longrightarrow> pending_ok (reporter_run es r)" for r
    by (induction es arbitrary: r) (auto simp: step_pending_ok)
  moreover have "pending_ok (new_reporter chat)" by (simp add: pending_ok_def new_reporter_def)
  ultimately show ?thesis by blast
qed

lemma trailing_flush:
  assumes "throttleTimer r = Some due" and "due \<le> now" and "\<not> isDeleted r"
  shows "flush_times (calls (run_timers now r)) = flush_times (calls r) @ [now]"
    and "throttleTimer (run_timers now r) = None"
    and "pendingLabel (run_timers now r) = None"
    and "run_timers now2 (run_timers now r) = run_timers now r"
  using assms
  by (auto simp: run_timers_def timer_callback_def flush_def Let_def flush_times_append)

text \<open>
  C5. A timeout that is overdue when a report is processed is not cancelled by the
  flush of that report. The report of \<open>Bash\<close> at 10000 flushes; the report of
  \<open>Read\<close> at 11000 is throttled and arms the timeout for 13000; the report of
  \<open>Grep\<close> is processed at 13002, before the timers phase has run the callback, and
  flushes at once because three seconds have passed since the last flush; the callback
  runs at 13003 and flushes again. The flushes at 13002 and 13003 are one millisecond
  apart. (In a punctual run the flushes are at least \<open>MIN_UPDATE_INTERVAL\<close> apart,
  \<open>punctual_flushes_spaced\<close>; a throttled report always leaves a timeout armed, whose
  callback flushes once, \<open>pending_has_timer\<close> and \<open>trailing_flush\<close>.)
\<close>

theorem overdue_timer_double_flush:
  "well_timed 0 [Report ''Bash'' 10000 10000, SendReturned (Some 42), Report ''Read'' 11000 11000,
       Report ''Grep'' 13002 13002, Timers 13003]
   \<and> flush_times (calls (reporter_run
       [Report ''Bash'' 10000 10000, SendReturned (Some 42), Report ''Read'' 11000 11000,
        Report ''Grep'' 13002 13002, Timers 13003]
       (new_reporter (Some ''123'')))) = [10000, 13002, 13003]
   \<and> \<not> spaced MIN_UPDATE_INTERVAL (flush_times (calls (reporter_run
       [Report ''Bash'' 10000 10000, SendReturned (Some 42), Report ''Read'' 11000 11000,
        Report ''Grep'' 13002 13002, Timers 13003]
       (new_reporter (Some ''123'')))))"
  by (simp add: new_reporter_def truthy_str_def truthy_num_def
      report_def tool_label_def TOOL_LABELS_def Let_def MIN_UPDATE_INTERVAL_def
      flush_def buildText_def send_returned_def run_timers_def timer_callback_def)


subsection \<open>Cleanup\<close>

lemma cleanup_reporter_deleted: "isDeleted (cleanup_reporter r)"
  by (simp add: cleanup_reporter_def Let_def)

lemma report_after_cleanup: "isDeleted r \<Longrightarrow> report n now now2 r = r"
  by (simp add: report_def)

lemma cleanup_reporter_twice_state:
  "cleanup_reporter (cleanup_reporter r) =
     (cleanup_reporter r)\<lparr>calls := calls (cleanup_reporter (cleanup_reporter r))\<rparr>"
  by (simp add: cleanup_reporter_def Let_def)

lemma cleanup_reporter_deletes:
  "deletes (calls (cleanup_reporter r)) =
     deletes (calls r) + (if truthy_num (messageId r) \<and> truthy_str (chatId r) then 1 else 0)"
proof -
  have "deletes (cs @ [DeleteMessage c m]) = Suc (deletes cs)" for cs c m
    by (induction cs rule: deletes.induct) auto
  then show ?thesis by (simp add: cleanup_reporter_def Let_def)
qed

text \<open>
  C4. \<open>cleanup\<close> deletes the progress message each time it is called while the
  message id is set. In the streaming handler a tool call sends the progress message
  (id 42), the \<open>error\<close> listener calls \<open>cleanup\<close> and ends the response, and the
  \<open>close\<close> of the response, with \<open>isComplete\<close> still false, calls \<open>cleanup\<close>
  again: \<open>deleteMessage\<close> has been called twice. (After a cleanup the reporter is
  terminated and \<open>report\<close> changes nothing: \<open>cleanup_reporter_deleted\<close>,
  \<open>report_after_cleanup\<close>.)
\<close>

theorem cleanup_twice_deletes_twice:
  "deletes (calls (progress (streaming_run
      [(steady 10000, Message (StreamEventMsg (Some (ContentBlockStart (Some (ToolUse (Some ''Bash''))))))),
       (steady 10200, TelegramReplied (Some 42)),
       (steady 20000, Error ''boom''),
       (steady 20001, ResClose)]
      (streaming_start ''req1'' (Some ''123''))))) = 2"
  by (simp add: streaming_start_def new_reporter_def truthy_str_def truthy_num_def steady_def
      on_message_def report_def tool_label_def TOOL_LABELS_def Let_def MIN_UPDATE_INTERVAL_def
      flush_def buildText_def send_returned_def on_error_def cleanup_reporter_def
      res_write_def res_end_def on_res_close_def)


section \<open>Properties of the streaming handler\<close>

lemma streaming_run_snoc:
  "streaming_run (es @ [(clk, e)]) st = streaming_step clk e (streaming_run es st)"
  by (induction es arbitrary: st) auto

lemma delta_texts_append: "delta_texts (xs @ ys) = delta_texts xs @ delta_texts ys"
  by (induction xs rule: delta_texts.induct) auto

lemma after_last_start_snoc:
  "after_last_start (es @ [e]) = (if is_message_start e then [] else after_last_start es @ [e])"
  by (simp add: after_last_start_def)

lemma on_message_buffer:
  "turnBuffer (on_message clk m st) =
     (if m = StreamEventMsg (Some MessageStart) then [] else turnBuffer st)"
  by (auto simp: on_message_def Let_def split: cli_message.splits option.splits
      stream_event.splits content_block.splits)

lemma on_message_same: "same_response (on_message clk m st) st"
  by (auto simp: on_message_def Let_def same_response_def split: cli_message.splits option.splits
      stream_event.splits content_block.splits)

lemma step_same:
  "streams_on e \<Longrightarrow> same_response (streaming_step clk e st) st"
  using on_message_same [of clk _ st]
  by (cases e) (auto simp: same_response_def on_content_delta_def on_assistant_def Let_def)

lemma step_buffer:
  "streams_on e \<Longrightarrow>
   turnBuffer (streaming_step clk e st) =
     (if is_message_start e then []
      else turnBuffer st @ filter (\<lambda>t. t \<noteq> []) (delta_texts [e]))"
  by (cases e)
     (auto simp: on_message_buffer is_message_start_def on_content_delta_def on_assistant_def
        Let_def)

lemma run_same:
  "list_all (\<lambda>ce. streams_on (snd ce)) evs \<Longrightarrow> same_response (streaming_run evs st) st"
proof (induction evs rule: rev_induct)
  case Nil
  then show ?case by (simp add: same_response_def)
next
  case (snoc ce evs)
  obtain clk e where ce: "ce = (clk, e)" by (cases ce)
  with snoc.prems have "streams_on e" by simp
  then have "same_response (streaming_step clk e (streaming_run evs st)) (streaming_run evs st)"
    by (rule step_same)
  moreover from snoc have "same_response (streaming_run evs st) st" by simp
  ultimately show ?case by (simp add: ce streaming_run_snoc same_response_def)
qed

lemma run_buffer:
  "list_all (\<lambda>ce. streams_on (snd ce)) evs \<Longrightarrow>
   turnBuffer (streaming_run evs (streaming_start rid tid)) =
     filter (\<lambda>t. t \<noteq> []) (delta_texts (after_last_start (map snd evs)))"
proof (induction evs rule: rev_induct)
  case Nil
  then show ?case by (simp add: streaming_start_def after_last_start_def)
next
  case (snoc ce evs)
  obtain clk e where ce: "ce = (clk, e)" by (cases ce)
  with snoc.prems have on: "streams_on e" by simp
  from snoc have IH: "turnBuffer (streaming_run evs (streaming_start rid tid)) =
     filter (\<lambda>t. t \<noteq> []) (delta_texts (after_last_start (map snd evs)))" by simp
  show ?case
    by (simp add: ce streaming_run_snoc step_buffer [OF on] IH after_last_start_snoc
        delta_texts_append)
qed

lemma write_deltas_wrote:
  "\<not> closed st \<Longrightarrow>
   \<exists>cs. write_deltas clk i isFirst ts st = st\<lparr>wrote := wrote st @ map DataChunk cs\<rparr>
        \<and> map delta_content cs = map Some ts"
proof (induction ts arbitrary: st i isFirst)
  case Nil
  have "write_deltas clk i isFirst [] st = st\<lparr>wrote := wrote st @ map DataChunk []\<rparr>" by simp
  then show ?case by (metis list.simps(8))
next
  case (Cons t ts)
  define c where "c = \<lparr>chunk_id = ''chatcmpl-'' @ requestId st, chunk_object = ''chat.completion.chunk'',
           chunk_created = clk i div 1000, chunk_model = lastModel st, choice_index = 0,
           delta_role = (if isFirst then Some ''assistant'' else None),
           delta_content = Some t, finish_reason = None\<rparr>"
  define st1 where "st1 = res_write (DataChunk c) st"
  have st1: "st1 = st\<lparr>wrote := wrote st @ [DataChunk c]\<rparr>" "\<not> closed st1"
    using Cons.prems by (simp_all add: st1_def res_write_def)
  from Cons.IH [OF st1(2)] obtain cs where
    cs: "write_deltas clk (i + 1) False ts st1 = st1\<lparr>wrote := wrote st1 @ map DataChunk cs\<rparr>"
        "map delta_content cs = map Some ts" by blast
  have "write_deltas clk i isFirst (t # ts) st = write_deltas clk (i + 1) False ts st1"
    by (simp add: st1_def c_def)
  also have "\<dots> = st\<lparr>wrote := wrote st @ map DataChunk (c # cs)\<rparr>"
    unfolding cs(1) by (simp add: st1(1))
  finally show ?case using cs(2) by (intro exI [of _ "c # cs"]) (simp add: c_def)
qed

lemma client_text_chunks:
  "client_text (map DataChunk cs @ ws) = concat (map (\<lambda>c. or_str (delta_content c) []) cs) @ client_text ws"
  by (induction cs) auto

lemma or_str_Some_nonempty:
  "map (\<lambda>x. or_str x []) (map Some (filter (\<lambda>t. t \<noteq> []) ts)) = filter (\<lambda>t. t \<noteq> []) ts"
  by (induction ts) (auto simp: or_str_def truthy_str_def)

lemma concat_nonempty: "concat (filter (\<lambda>t. t \<noteq> []) ts) = concat ts"
  by (induction ts) auto

lemma on_result_wrote:
  assumes "\<not> closed st" and "\<not> writableEnded st"
  shows "\<exists>cs. wrote (on_result clk st) =
           wrote st @ map DataChunk cs @
             [DataChunk (createDoneChunk (requestId st) (lastModel st) (clk (length (turnBuffer st)))),
              DoneMarker]
         \<and> map delta_content cs = map Some (turnBuffer st)
         \<and> writableEnded (on_result clk st)"
proof -
  define st2 where "st2 = st\<lparr>isComplete := True, progress := cleanup_reporter (progress st)\<rparr>"
  have "\<not> closed st2" using assms by (simp add: st2_def)
  from write_deltas_wrote [OF this, of clk 0 True "turnBuffer st"] obtain cs where
    cs: "write_deltas clk 0 True (turnBuffer st) st2 = st2\<lparr>wrote := wrote st2 @ map DataChunk cs\<rparr>"
        "map delta_content cs = map Some (turnBuffer st)" by blast
  have "wrote (on_result clk st) = wrote st @ map DataChunk cs @
             [DataChunk (createDoneChunk (requestId st) (lastModel st) (clk (length (turnBuffer st)))),
              DoneMarker]"
       "writableEnded (on_result clk st)"
    using assms cs(1)
    by (simp_all add: on_result_def Let_def st2_def res_write_def res_end_def)
  with cs(2) show ?thesis by blast
qed

text \<open>
  C1. For a sequence of events with no error, exit, disconnect or earlier result,
  followed by the terminal \<open>result\<close>: the handler has written the initial comment, one
  chunk for each non-empty delta text emitted after the last \<open>message_start\<close> of the
  sequence, in order, then the chunk that ends the stream and the \<open>[DONE]\<close> marker;
  the text the client assembles is the concatenation of the delta texts emitted after
  the last \<open>message_start\<close>. Nothing emitted before that boundary is written.
\<close>

theorem final_turn_only:
  assumes "list_all (\<lambda>ce. streams_on (snd ce)) evs"
  shows "\<exists>cs. wrote (streaming_run (evs @ [(clk, Result r)]) (streaming_start rid tid)) =
             OkComment # map DataChunk cs @
               [DataChunk (createDoneChunk rid
                  (lastModel (streaming_run evs (streaming_start rid tid))) (clk (length cs))),
                DoneMarker]
           \<and> map delta_content cs =
               map Some (filter (\<lambda>t. t \<noteq> []) (delta_texts (after_last_start (map snd evs))))
           \<and> client_text (wrote (streaming_run (evs @ [(clk, Result r)]) (streaming_start rid tid)))
               = concat (delta_texts (after_last_start (map snd evs)))"
proof -
  define st where "st = streaming_run evs (streaming_start rid tid)"
  have sameR: "same_response st (streaming_start rid tid)"
    unfolding st_def using assms by (rule run_same)
  then have isopen: "\<not> closed st" "\<not> writableEnded st" and wr: "wrote st = [OkComment]"
    and ridR: "requestId st = rid"
    by (simp_all add: same_response_def streaming_start_def)
  have bufR: "turnBuffer st = filter (\<lambda>t. t \<noteq> []) (delta_texts (after_last_start (map snd evs)))"
    unfolding st_def using assms by (rule run_buffer)
  from on_result_wrote [OF isopen, of clk] obtain cs where
    cs: "wrote (on_result clk st) = wrote st @ map DataChunk cs @
             [DataChunk (createDoneChunk (requestId st) (lastModel st) (clk (length (turnBuffer st)))),
              DoneMarker]"
        "map delta_content cs = map Some (turnBuffer st)" by blast
  from cs(2) have lenR: "length (turnBuffer st) = length cs" by (metis length_map)
  have runR: "streaming_run (evs @ [(clk, Result r)]) (streaming_start rid tid) = on_result clk st"
    by (simp add: streaming_run_snoc st_def)
  have txtR: "concat (map (\<lambda>c. or_str (delta_content c) []) cs) = concat (turnBuffer st)"
  proof -
    have "map (\<lambda>c. or_str (delta_content c) []) cs = map (\<lambda>x. or_str x []) (map delta_content cs)"
      by simp
    also have "\<dots> = map (\<lambda>x. or_str x []) (map Some (turnBuffer st))" by (simp only: cs(2))
    also have "\<dots> = turnBuffer st"
      unfolding bufR by (rule or_str_Some_nonempty)
    finally show ?thesis by simp
  qed
  have done_content: "or_str (delta_content (createDoneChunk (requestId st) (lastModel st)
                 (clk (length (turnBuffer st))))) [] = []"
    by (simp add: createDoneChunk_def or_str_def truthy_str_def)
  have "client_text (wrote (on_result clk st)) = concat (turnBuffer st)"
    by (simp add: cs(1) wr client_text_chunks txtR done_content)
  then have c3: "client_text (wrote (on_result clk st)) =
      concat (delta_texts (after_last_start (map snd evs)))"
    by (simp only: bufR concat_nonempty)
  have c1: "wrote (on_result clk st) = OkComment # map DataChunk cs @
      [DataChunk (createDoneChunk rid (lastModel st) (clk (length cs))), DoneMarker]"
    by (simp add: cs(1) wr ridR lenR)
  have c2: "map delta_content cs =
      map Some (filter (\<lambda>t. t \<noteq> []) (delta_texts (after_last_start (map snd evs))))"
    by (simp only: cs(2) bufR)
  from c1 c2 c3 show ?thesis
    unfolding runR st_def [symmetric] by blast
qed

theorem final_turn_only_witness:
  "list_all (\<lambda>ce. streams_on (snd ce))
     [(steady 1000, Message (StreamEventMsg (Some MessageStart))),
      (steady 2000, ContentDelta (Some ''A'')),
      (steady 3000, Message (StreamEventMsg (Some MessageStart))),
      (steady 4000, ContentDelta (Some ''B''))]
   \<and> client_text (wrote (streaming_run
       ([(steady 1000, Message (StreamEventMsg (Some MessageStart))),
         (steady 2000, ContentDelta (Some ''A'')),
         (steady 3000, Message (StreamEventMsg (Some MessageStart))),
         (steady 4000, ContentDelta (Some ''B''))]
        @ [(steady 5000, Result \<lparr>result_text = Some ''AB'', modelUsage = None, result_usage = None\<rparr>)])
       (streaming_start ''req1'' None))) = ''B''"
  using final_turn_only [of
      "[(steady 1000, Message (StreamEventMsg (Some MessageStart))),
        (steady 2000, ContentDelta (Some ''A'')),
        (steady 3000, Message (StreamEventMsg (Some MessageStart))),
        (steady 4000, ContentDelta (Some ''B''))]"
      "steady 5000" "\<lparr>result_text = Some ''AB'', modelUsage = None, result_usage = None\<rparr>"
      "''req1''" None]
  by (auto simp: after_last_start_def is_message_start_def or_str_def truthy_str_def)

text \<open>
  C7. When the terminal \<open>result\<close> arrives after a sequence of events with no error, exit
  or disconnect and the turn buffer is empty, the handler has written the initial
  comment, the chunk that ends the stream (no content, \<open>finish_reason\<close> \<open>"stop"\<close>) and
  the \<open>[DONE]\<close> marker, and nothing else: no content chunk and no error. The text the
  client assembles is empty and the response is ended.
\<close>

theorem empty_final_turn:
  assumes "list_all (\<lambda>ce. streams_on (snd ce)) evs"
    and "turnBuffer (streaming_run evs (streaming_start rid tid)) = []"
  shows "wrote (streaming_run (evs @ [(clk, Result r)]) (streaming_start rid tid)) =
           [OkComment,
            DataChunk (createDoneChunk rid
              (lastModel (streaming_run evs (streaming_start rid tid))) (clk 0)),
            DoneMarker]
         \<and> finish_reason (createDoneChunk rid
              (lastModel (streaming_run evs (streaming_start rid tid))) (clk 0)) = Some ''stop''
         \<and> delta_content (createDoneChunk rid
              (lastModel (streaming_run evs (streaming_start rid tid))) (clk 0)) = None
         \<and> client_text (wrote (streaming_run (evs @ [(clk, Result r)]) (streaming_start rid tid))) = []
         \<and> writableEnded (streaming_run (evs @ [(clk, Result r)]) (streaming_start rid tid))"
proof -
  define st where "st = streaming_run evs (streaming_start rid tid)"
  have "same_response st (streaming_start rid tid)"
    unfolding st_def using assms(1) by (rule run_same)
  then have isopen: "\<not> closed st" "\<not> writableEnded st" and wr: "wrote st = [OkComment]"
    and ridR: "requestId st = rid"
    by (simp_all add: same_response_def streaming_start_def)
  have empty: "turnBuffer st = []" using assms(2) by (simp add: st_def)
  from on_result_wrote [OF isopen, of clk] obtain cs where
    cs: "wrote (on_result clk st) = wrote st @ map DataChunk cs @
             [DataChunk (createDoneChunk (requestId st) (lastModel st) (clk (length (turnBuffer st)))),
              DoneMarker]"
        "map delta_content cs = map Some (turnBuffer st)"
        "writableEnded (on_result clk st)" by blast
  from cs(2) empty have "cs = []" by simp
  with cs(1) have w: "wrote (on_result clk st) =
      [OkComment, DataChunk (createDoneChunk rid (lastModel st) (clk 0)), DoneMarker]"
    by (simp add: wr ridR empty)
  have runR: "streaming_run (evs @ [(clk, Result r)]) (streaming_start rid tid) = on_result clk st"
    by (simp add: streaming_run_snoc st_def)
  have fr: "finish_reason (createDoneChunk rid (lastModel st) (clk 0)) = Some ''stop''"
           "delta_content (createDoneChunk rid (lastModel st) (clk 0)) = None"
    by (simp_all add: createDoneChunk_def)
  have ct: "client_text (wrote (on_result clk st)) = []"
    unfolding w by (simp add: fr or_str_def truthy_str_def)
  from w fr ct cs(3) show ?thesis
    unfolding runR st_def [symmetric] by simp
qed

theorem empty_final_turn_witness:
  "list_all (\<lambda>ce. streams_on (snd ce))
     [(steady 1000, Message (StreamEventMsg (Some MessageStart))),
      (steady 2000, ContentDelta (Some ''A'')),
      (steady 3000, Message (StreamEventMsg (Some MessageStart)))]
   \<and> turnBuffer (streaming_run
       [(steady 1000, Message (StreamEventMsg (Some MessageStart))),
        (steady 2000, ContentDelta (Some ''A'')),
        (steady 3000, Message (StreamEventMsg (Some MessageStart)))]
       (streaming_start ''req1'' None)) = []
   \<and> wrote (streaming_run
       ([(steady 1000, Message (StreamEventMsg (Some MessageStart))),
         (steady 2000, ContentDelta (Some ''A'')),
         (steady 3000, Message (StreamEventMsg (Some MessageStart)))]
        @ [(steady 5000, Result \<lparr>result_text = Some '''', modelUsage = None, result_usage = None\<rparr>)])
       (streaming_start ''req1'' None)) =
     [OkComment,
      DataChunk \<lparr>chunk_id = ''chatcmpl-req1'', chunk_object = ''chat.completion.chunk'',
        chunk_created = 5, chunk_model = Some ''claude-sonnet-4'', choice_index = 0,
        delta_role = None, delta_content = None, finish_reason = Some ''stop''\<rparr>,
      DoneMarker]"
proof -
  have b: "turnBuffer (streaming_run
       [(steady 1000, Message (StreamEventMsg (Some MessageStart))),
        (steady 2000, ContentDelta (Some ''A'')),
        (steady 3000, Message (StreamEventMsg (Some MessageStart)))]
       (streaming_start ''req1'' None)) = []"
    by (simp add: on_message_def on_content_delta_def Let_def)
  have a: "list_all (\<lambda>ce. streams_on (snd ce))
     [(steady 1000, Message (StreamEventMsg (Some MessageStart))),
      (steady 2000, ContentDelta (Some ''A'')),
      (steady 3000, Message (StreamEventMsg (Some MessageStart)))]" by simp
  from empty_final_turn [OF a b, of "steady 5000"
      "\<lparr>result_text = Some '''', modelUsage = None, result_usage = None\<rparr>"] a b
  show ?thesis
    by (simp add: on_message_def on_content_delta_def Let_def streaming_start_def
        createDoneChunk_def normalizeModelName_def truthy_str_def steady_apply)
qed


section \<open>Properties of the non-streaming handler\<close>

lemma nonstreaming_run_snoc:
  "nonstreaming_run (es @ [(clk, e)]) st =
     (case nonstreaming_run es st of Inl f \<Rightarrow> Inl f | Inr st1 \<Rightarrow> nonstreaming_step clk e st1)"
  by (induction es arbitrary: st) (auto split: sum.splits)

lemma results_append: "results (xs @ ys) = results xs @ results ys"
  by (induction xs rule: results.induct) auto

lemma errors_append: "errors (xs @ ys) = errors xs @ errors ys"
  by (induction xs rule: errors.induct) auto

lemma short_nonempty: "xs \<noteq> [] \<Longrightarrow> length xs \<le> Suc 0 \<Longrightarrow> Suc 0 = length xs"
  by (cases xs) auto

text \<open>The state of the non-streaming handler after events that come before the exit.\<close>

lemma run_before_close:
  assumes "list_all (\<lambda>ce. before_close (snd ce)) evs"
  shows "case nonstreaming_run evs (nonstreaming_start rid tid) of
           Inl f \<Rightarrow> 2 \<le> length (errors (map snd evs))
         | Inr st \<Rightarrow>
             length (errors (map snd evs)) \<le> 1
             \<and> sent st = map (\<lambda>m. (500, ErrorBody m)) (errors (map snd evs))
             \<and> finalResult st = (if results (map snd evs) = [] then None
                                  else Some (last (results (map snd evs))))
             \<and> ns_requestId st = rid"
  using assms
proof (induction evs rule: rev_induct)
  case Nil
  then show ?case by (simp add: nonstreaming_start_def)
next
  case (snoc ce evs)
  obtain clk e where ce: "ce = (clk, e)" by (cases ce)
  from snoc.prems ce have bc: "before_close e" by simp
  from snoc have IH: "case nonstreaming_run evs (nonstreaming_start rid tid) of
           Inl f \<Rightarrow> 2 \<le> length (errors (map snd evs))
         | Inr st \<Rightarrow>
             length (errors (map snd evs)) \<le> 1
             \<and> sent st = map (\<lambda>m. (500, ErrorBody m)) (errors (map snd evs))
             \<and> finalResult st = (if results (map snd evs) = [] then None
                                  else Some (last (results (map snd evs))))
             \<and> ns_requestId st = rid" by simp
  show ?case
  proof (cases "nonstreaming_run evs (nonstreaming_start rid tid)")
    case (Inl f)
    with IH show ?thesis by (simp add: ce nonstreaming_run_snoc errors_append)
  next
    case (Inr st)
    with IH bc show ?thesis
      by (cases e)
         (auto simp: ce nonstreaming_run_snoc errors_append results_append Let_def resolve_def
            res_json_def headersSent_def split: sum.splits intro: short_nonempty)
  qed
qed

text \<open>
  C10 (as amended). Let the events before the exit of the subprocess be results and
  errors in any order. If there is a result and no error among them, the \<open>close\<close>
  listener sends status 200 with the completion built from the last result, whatever
  the exit code. The \<open>close\<close> listener sends the 500 response "exited with code ...
  without response" if and only if there is neither a result nor an error among them,
  that is, no result has been received and no response has been sent before.
\<close>

theorem close_response:
  assumes "list_all (\<lambda>ce. before_close (snd ce)) evs"
  shows "(errors (map snd evs) = [] \<and> results (map snd evs) \<noteq> [] \<longrightarrow>
            (\<exists>st. nonstreaming_run (evs @ [(clk, Close code)]) (nonstreaming_start rid tid) = Inr st
                \<and> sent st = [(200, Completion
                      (cliResultToOpenai (last (results (map snd evs))) rid (clk 0)))]))
         \<and> ((\<exists>st st1. nonstreaming_run evs (nonstreaming_start rid tid) = Inr st
                \<and> nonstreaming_run (evs @ [(clk, Close code)]) (nonstreaming_start rid tid) = Inr st1
                \<and> sent st1 = sent st @ [(500, ErrorBody (exit_message code))])
              \<longleftrightarrow> results (map snd evs) = [] \<and> errors (map snd evs) = [])"
proof (cases "nonstreaming_run evs (nonstreaming_start rid tid)")
  case (Inl f)
  with run_before_close [OF assms, of rid tid] have "2 \<le> length (errors (map snd evs))" by simp
  with Inl show ?thesis by (auto simp: nonstreaming_run_snoc)
next
  case (Inr st)
  with run_before_close [OF assms, of rid tid] have
    st: "length (errors (map snd evs)) \<le> 1"
        "sent st = map (\<lambda>m. (500, ErrorBody m)) (errors (map snd evs))"
        "finalResult st = (if results (map snd evs) = [] then None
                           else Some (last (results (map snd evs))))"
        "ns_requestId st = rid" by simp_all
  show ?thesis
  proof (cases "results (map snd evs) = []")
    case True
    with Inr st show ?thesis
      by (auto simp: nonstreaming_run_snoc resolve_def res_json_def headersSent_def)
  next
    case False
    with Inr st show ?thesis
      by (cases "errors (map snd evs)")
         (auto simp: nonstreaming_run_snoc resolve_def res_json_def headersSent_def)
  qed
qed

theorem close_response_witness:
  "list_all (\<lambda>ce. before_close (snd ce))
     [(steady 4000, Result \<lparr>result_text = Some ''hi'', modelUsage = Some [''claude-opus-4-5''],
                           result_usage = Some (Some 3, None)\<rparr>)]
   \<and> errors [Result \<lparr>result_text = Some ''hi'', modelUsage = Some [''claude-opus-4-5''],
                           result_usage = Some (Some 3, None)\<rparr>] = []
   \<and> nonstreaming_run
       [(steady 4000, Result \<lparr>result_text = Some ''hi'', modelUsage = Some [''claude-opus-4-5''],
                           result_usage = Some (Some 3, None)\<rparr>),
        (steady 5000, Close (Some 1))]
       (nonstreaming_start ''req1'' None) =
     Inr \<lparr>ns_requestId = ''req1'', ns_notifyId = None,
          finalResult = Some \<lparr>result_text = Some ''hi'', modelUsage = Some [''claude-opus-4-5''],
                           result_usage = Some (Some 3, None)\<rparr>,
          sent = [(200, Completion
                   \<lparr>completion_id = ''chatcmpl-req1'', completion_object = ''chat.completion'',
                    completion_created = 5, completion_model = ''claude-opus-4'',
                    message_role = ''assistant'', message_content = Some ''hi'',
                    completion_finish_reason = ''stop'',
                    prompt_tokens = 3, completion_tokens = 0, total_tokens = 3\<rparr>)],
          ns_spawned = [], ns_resolved = True\<rparr>"
  using close_response [of
      "[(steady 4000, Result \<lparr>result_text = Some ''hi'', modelUsage = Some [''claude-opus-4-5''],
                           result_usage = Some (Some 3, None)\<rparr>)]"
      "steady 5000" "Some 1" "''req1''" None]
  by (simp add: nonstreaming_start_def resolve_def res_json_def headersSent_def
      cliResultToOpenai_def normalizeModelName_def truthy_str_def input_tokens_def
      output_tokens_def or_nat_def steady_apply)

text \<open>
  C10 as stated fails when an error event has answered the request before the exit.
  After \<open>error\<close> and \<open>close\<close> with no result, the only response is the 500 of the
  error listener, not the "exited without response" one. After \<open>result\<close>, \<open>error\<close>
  and \<open>close\<close>, the client has the 500 of the error listener and \<open>res.json\<close> of
  the \<open>close\<close> listener throws, so no 200 is sent.
\<close>

theorem error_then_close_counterexample:
  "results [Error ''Claude CLI timed out'', Close (Some 1)] = []
   \<and> nonstreaming_run
       [(steady 5000, Error ''Claude CLI timed out''), (steady 5001, Close (Some 1))]
       (nonstreaming_start ''req1'' None) =
     Inr \<lparr>ns_requestId = ''req1'', ns_notifyId = None, finalResult = None,
          sent = [(500, ErrorBody ''Claude CLI timed out'')],
          ns_spawned = [], ns_resolved = True\<rparr>
   \<and> exit_message (Some 1) = ''Claude CLI exited with code 1 without response''
   \<and> nonstreaming_run
       [(steady 4000, Result \<lparr>result_text = Some ''hi'', modelUsage = None, result_usage = None\<rparr>),
        (steady 5000, Error ''Claude CLI timed out'')]
       (nonstreaming_start ''req1'' None) =
     Inr \<lparr>ns_requestId = ''req1'', ns_notifyId = None,
          finalResult = Some \<lparr>result_text = Some ''hi'', modelUsage = None, result_usage = None\<rparr>,
          sent = [(500, ErrorBody ''Claude CLI timed out'')],
          ns_spawned = [], ns_resolved = True\<rparr>
   \<and> nonstreaming_run
       [(steady 4000, Result \<lparr>result_text = Some ''hi'', modelUsage = None, result_usage = None\<rparr>),
        (steady 5000, Error ''Claude CLI timed out''),
        (steady 5001, Close (Some 1))]
       (nonstreaming_start ''req1'' None) = Inl ERR_HTTP_HEADERS_SENT"
  by (simp add: nonstreaming_start_def resolve_def res_json_def headersSent_def
      notifyTelegram_def truthy_str_def exit_message_def show_code_def show_nat.simps)


section \<open>Resume failure\<close>

lemma session_block_resume:
  assumes "get cid m = Some s" and "cid \<noteq> []"
  shows "session_block uuid t1 t2 (Some cid) mdl m =
           ((True, Some (claudeSessionId s)),
            save (m\<lparr>sessions := AList.update cid
               (s\<lparr>lastUsedAt := t1, messageCount := Some (or_nat (messageCount s) 0 + 1)\<rparr>)
               (sessions m)\<rparr>))"
  using assms by (simp add: session_block_def truthy_str_def Let_def)

lemma session_block_fresh:
  assumes "get cid m = None" and "cid \<noteq> []"
  shows "fst (session_block uuid t1 t2 (Some cid) mdl m) = (False, Some uuid)"
  using assms
  by (simp add: session_block_def truthy_str_def Let_def getOrCreate_def get_def split: prod.splits)

lemma on_resume_failed_deletes:
  assumes "get cid m \<noteq> None" and "cid \<noteq> []"
  shows "get cid (on_resume_failed (Some cid) m) = None"
    and "written (on_resume_failed (Some cid) m) =
           written m @ [sessions (on_resume_failed (Some cid) m)]"
  using assms
  by (auto simp: on_resume_failed_def truthy_str_def delete_def Let_def save_def get_def
      delete_conv')

text \<open>
  C8. A request for a conversation id with a stored session (whose provider session id
  is not empty) resumes that session. When the subprocess then signals
  \<open>resume_failed\<close> and exits with a code other than 0 and no result, the stored mapping of the conversation id is deleted and the map is saved,
  \<open>subprocess.start\<close> has still been called once only, and the request ends with an
  error: on the streaming path the error chunk "Process exited with code ..." followed
  by \<open>[DONE]\<close>, on the non-streaming path the 500 response "exited with code ...
  without response". The next request for the conversation id does not resume: it starts
  a session with a fresh id.
\<close>

theorem resume_failure_invalidates:
  assumes stored: "get cid m = Some s"
    and cid: "cid \<noteq> []" and sid: "claudeSessionId s \<noteq> []" and fresh: "uuid2 \<noteq> []"
    and abnormal: "code \<noteq> Some 0"
  shows "(let rq = handleChatCompletions stream rid tid uuid t1 t2 (Some cid) mdl m
          in resumeSessionId rq = Some (claudeSessionId s) \<and> sessionId rq = None
           \<and> (\<exists>rq1. request_run (resume_failure clk errorText code) rq = Inr rq1
                \<and> get cid (store rq1) = None
                \<and> written (store rq1) = written (store rq) @ [sessions (store rq1)]
                \<and> starts rq1 = 1
                \<and> (stream \<longrightarrow> (\<exists>st. handler rq1 = Streaming st
                       \<and> wrote st = [OkComment,
                            DataError (''Process exited with code '' @ show_code code),
                            DoneMarker]
                       \<and> writableEnded st))
                \<and> (\<not> stream \<longrightarrow> (\<exists>st. handler rq1 = NonStreaming st
                       \<and> sent st = [(500, ErrorBody (exit_message code))]))
                \<and> (let rq2 = handleChatCompletions stream2 rid2 tid uuid2 t3 t4 (Some cid) mdl2
                                (store rq1)
                    in resumeSessionId rq2 = None \<and> sessionId rq2 = Some uuid2)))"
proof -
  define m1 where "m1 = save (m\<lparr>sessions := AList.update cid
               (s\<lparr>lastUsedAt := t1, messageCount := Some (or_nat (messageCount s) 0 + 1)\<rparr>)
               (sessions m)\<rparr>)"
  define h0 where "h0 = (if stream then Streaming (streaming_start rid tid)
                     else NonStreaming (nonstreaming_start rid tid))"
  define rq where "rq = \<lparr>store = m1, conversation = Some cid,
      resumeSessionId = Some (claudeSessionId s), sessionId = None, starts = 1, handler = h0\<rparr>"
  have rq: "handleChatCompletions stream rid tid uuid t1 t2 (Some cid) mdl m = rq"
    using session_block_resume [OF stored cid, of uuid t1 t2 mdl] sid
    by (simp add: handleChatCompletions_def rq_def m1_def h0_def truthy_str_def)
  have present: "get cid m1 \<noteq> None"
    by (simp add: m1_def save_def get_def update_conv')
  define m2 where "m2 = on_resume_failed (Some cid) m1"
  have gone: "get cid m2 = None" and saved: "written m2 = written m1 @ [sessions m2]"
    unfolding m2_def using on_resume_failed_deletes [OF present cid] by simp_all
  define h2 where "h2 = (if stream
      then Streaming (on_close code (streaming_start rid tid))
      else NonStreaming ((nonstreaming_start rid tid)
             \<lparr>sent := [(500, ErrorBody (exit_message code))], ns_resolved := True\<rparr>))"
  define rq1 where "rq1 = rq\<lparr>store := m2, handler := h2\<rparr>"
  have run: "request_run (resume_failure clk errorText code) rq = Inr rq1"
    by (simp add: resume_failure_def request_step_def rq_def rq1_def h0_def h2_def m2_def
        resolve_def res_json_def headersSent_def nonstreaming_start_def)
  have str: "stream \<Longrightarrow> \<exists>st. handler rq1 = Streaming st
                       \<and> wrote st = [OkComment,
                            DataError (''Process exited with code '' @ show_code code),
                            DoneMarker]
                       \<and> writableEnded st"
    using abnormal
    by (simp add: rq1_def h2_def on_close_def streaming_start_def res_write_def res_end_def
        Let_def)
  have nstr: "\<not> stream \<Longrightarrow> \<exists>st. handler rq1 = NonStreaming st
                       \<and> sent st = [(500, ErrorBody (exit_message code))]"
    by (simp add: rq1_def h2_def)
  have nxt: "fst (session_block uuid2 t3 t4 (Some cid) mdl2 m2) = (False, Some uuid2)"
    using gone cid by (rule session_block_fresh)
  have next_rq: "resumeSessionId (handleChatCompletions stream2 rid2 tid uuid2 t3 t4 (Some cid) mdl2 m2) = None"
      "sessionId (handleChatCompletions stream2 rid2 tid uuid2 t3 t4 (Some cid) mdl2 m2) = Some uuid2"
  proof -
    from nxt obtain m3 where "session_block uuid2 t3 t4 (Some cid) mdl2 m2 = ((False, Some uuid2), m3)"
      by (cases "session_block uuid2 t3 t4 (Some cid) mdl2 m2") auto
    then show "resumeSessionId (handleChatCompletions stream2 rid2 tid uuid2 t3 t4 (Some cid) mdl2 m2) = None"
      "sessionId (handleChatCompletions stream2 rid2 tid uuid2 t3 t4 (Some cid) mdl2 m2) = Some uuid2"
      using fresh by (simp_all add: handleChatCompletions_def truthy_str_def)
  qed
  have props: "get cid (store rq1) = None"
      "written (store rq1) = written (store rq) @ [sessions (store rq1)]"
      "starts rq1 = 1" "store rq1 = m2"
    using gone saved by (simp_all add: rq1_def rq_def)
  show ?thesis
    unfolding rq Let_def
    using run props str nstr next_rq
    by (simp add: rq_def)
qed

theorem resume_failure_invalidates_witness:
  "get ''c1'' \<lparr>sessions = [(''c1'', \<lparr>conversationId = ''c1'', claudeSessionId = ''u1'',
            createdAt = 1000, lastUsedAt = 1001, model = ''sonnet'', messageCount = None\<rparr>)],
          loaded = True, written = [], loading = 0\<rparr>
     = Some \<lparr>conversationId = ''c1'', claudeSessionId = ''u1'',
            createdAt = 1000, lastUsedAt = 1001, model = ''sonnet'', messageCount = None\<rparr>
   \<and> ''c1'' \<noteq> [] \<and> ''u1'' \<noteq> [] \<and> ''u2'' \<noteq> [] \<and> Some (1::int) \<noteq> Some 0
   \<and> (\<exists>rq1. request_run (resume_failure (steady 3000) ''No conversation found'' (Some 1))
          (handleChatCompletions True ''req1'' None ''u9'' 2000 2001 (Some ''c1'') (Some ''sonnet'')
             \<lparr>sessions = [(''c1'', \<lparr>conversationId = ''c1'', claudeSessionId = ''u1'',
                  createdAt = 1000, lastUsedAt = 1001, model = ''sonnet'', messageCount = None\<rparr>)],
              loaded = True, written = [], loading = 0\<rparr>) = Inr rq1
        \<and> get ''c1'' (store rq1) = None \<and> sessions (store rq1) = []
        \<and> written (store rq1) = [[(''c1'', \<lparr>conversationId = ''c1'', claudeSessionId = ''u1'',
                  createdAt = 1000, lastUsedAt = 2000, model = ''sonnet'',
                  messageCount = Some 1\<rparr>)], []]
        \<and> starts rq1 = 1
        \<and> (\<exists>st. handler rq1 = Streaming st
              \<and> wrote st = [OkComment, DataError ''Process exited with code 1'', DoneMarker]))"
proof -
  define s0 where "s0 = \<lparr>conversationId = ''c1'', claudeSessionId = ''u1'',
            createdAt = 1000, lastUsedAt = 1001, model = ''sonnet'', messageCount = None\<rparr>"
  define m0 where "m0 = \<lparr>sessions = [(''c1'', s0)], loaded = True, written = [], loading = 0\<rparr>"
  have g: "get ''c1'' m0 = Some s0" by (simp add: get_def m0_def)
  have sid: "claudeSessionId s0 \<noteq> []" by (simp add: s0_def)
  have code: "Some (1::int) \<noteq> Some 0" by simp
  have rq: "store (handleChatCompletions True ''req1'' None ''u9'' 2000 2001 (Some ''c1'')
              (Some ''sonnet'') m0) =
            \<lparr>sessions = [(''c1'', s0\<lparr>lastUsedAt := 2000, messageCount := Some 1\<rparr>)],
             loaded = True,
             written = [[(''c1'', s0\<lparr>lastUsedAt := 2000, messageCount := Some 1\<rparr>)]],
             loading = 0\<rparr>"
    by (simp add: handleChatCompletions_def session_block_def truthy_str_def get_def m0_def
        Let_def save_def or_nat_def s0_def)
  have u2: "''u2'' \<noteq> []" and c1: "''c1'' \<noteq> []" by simp_all
  from resume_failure_invalidates [OF g c1 sid u2 code, where stream = True and rid = "''req1''"
      and tid = None and uuid = "''u9''" and ?t1.0 = 2000 and ?t2.0 = 2001
      and mdl = "Some ''sonnet''" and clk = "steady 3000"
      and errorText = "''No conversation found''" and ?stream2.0 = False and ?rid2.0 = "''req2''"
      and ?t3.0 = 4000 and ?t4.0 = 4001 and ?mdl2.0 = None]
  obtain rq1 where rq1:
    "request_run (resume_failure (steady 3000) ''No conversation found'' (Some 1))
          (handleChatCompletions True ''req1'' None ''u9'' 2000 2001 (Some ''c1'') (Some ''sonnet'')
             m0) = Inr rq1"
    "get ''c1'' (store rq1) = None"
    "written (store rq1) = written (store (handleChatCompletions True ''req1'' None ''u9'' 2000 2001
        (Some ''c1'') (Some ''sonnet'') m0)) @ [sessions (store rq1)]"
    "starts rq1 = 1"
    "\<exists>st. handler rq1 = Streaming st
        \<and> wrote st = [OkComment, DataError (''Process exited with code '' @ show_code (Some 1)),
                      DoneMarker]"
    by (auto simp: Let_def)
  have sess: "sessions (store rq1) = []"
    using rq1(1)
    by (auto simp: resume_failure_def request_step_def handleChatCompletions_def
        session_block_def truthy_str_def get_def m0_def Let_def save_def or_nat_def s0_def
        on_resume_failed_def delete_def AList.delete_eq split: sum.splits handler_state.splits)
  have sc: "show_code (Some 1) = ''1''" by (simp add: show_code_def show_nat.simps)
  from rq1 sess show ?thesis
    unfolding m0_def [symmetric] s0_def [symmetric]
    using g by (auto simp: rq sc s0_def)
qed


end
